theory Spec2Isabelle
  imports Main "HOL-Library.Word" "HOL-Library.Sublist"
begin

section \<open>Shared vocabulary of the operation engine\<close>

text \<open>
  Modelled from the spec: the enumerations \<open>OperationState\<close> and \<open>OperationResult\<close>,
  declared in \<^verbatim>\<open>Operation.h\<close> (section 3 lists their values; the sources name
  \<open>Unstarted\<close>, \<open>Pending\<close>, \<open>Succeeded\<close>, \<open>Failed\<close>, \<open>TimedOut\<close> and \<open>Cancelled\<close>), and
  the three answers of a handler verb (section 2).

  A \<open>Duration\<close> is a \<open>std::chrono::duration\<close> that counts microseconds
  (\<open>specializedRunImpl\<close> builds one from \<open>FLAGS_async_mysql_connect_tcp_timeout_micros\<close>) in
  an unsigned 64-bit integer: the sums of durations in \<open>shouldCompleteOperation\<close> and
  \<open>attemptFailed\<close> wrap around at \<open>2 ^ 64\<close>. One millisecond is the duration 1000.

  \<open>CHECK_THROW (cond, db::OperationStateException)\<close> throws when \<open>cond\<close> is false: the
  throw is the \<open>Inl\<close> branch of a sum.
\<close>

datatype OperationState = Unstarted | Pending | Cancelling | Completed

datatype OperationResult = Succeeded | Failed | TimedOut | Cancelled

datatype Status = PENDING | DONE | ERROR

datatype exn = OperationStateException

type_synonym Duration = "64 word" \<comment> \<open>microseconds, unsigned, 64 bits\<close>

type_synonym ptr = nat \<comment> \<open>an address; 0 is the null pointer\<close>

section \<open>FetchOperationImpl: the guarded accessors\<close>

record FetchOperationImpl =
  fetch_state :: OperationState
  num_queries_executed :: "32 word"
  total_result_size :: "64 word"

definition numQueriesExecuted :: "FetchOperationImpl \<Rightarrow> exn + 32 word" where
  "numQueriesExecuted f =
     (if fetch_state f \<noteq> Pending then Inr (num_queries_executed f)
      else Inl OperationStateException)"

definition resultSize :: "FetchOperationImpl \<Rightarrow> exn + 64 word" where
  "resultSize f =
     (if fetch_state f \<noteq> Unstarted then Inr (total_result_size f)
      else Inl OperationStateException)"

section \<open>ConnectionOptions and the certificate validation bridge\<close>

text \<open>
  \<open>folly::StringPiece\<close> is a pointer and a length; it is empty when the length is 0.
  The user's \<open>CertValidatorCallback\<close> takes the certificate, a context pointer and the
  error message by reference, and returns a bool: the model returns the message it
  leaves behind beside that bool.
\<close>

record StringPiece =
  sp_data :: ptr
  sp_size :: nat

definition empty_piece :: StringPiece where
  "empty_piece = \<lparr>sp_data = 0, sp_size = 0\<rparr>"

type_synonym CertValidatorCallback = "ptr \<Rightarrow> ptr \<Rightarrow> StringPiece \<Rightarrow> bool \<times> StringPiece"

text \<open>
  Modelled from the spec: the class \<open>ConnectionOptions\<close>, declared in
  \<^verbatim>\<open>ConnectionOptions.h\<close>. Section 3 calls it a configuration record and lists its
  options; the fields are the ones whose getters and setters \<^verbatim>\<open>ConnectOperation.cpp\<close>
  calls, and each setter of the class is the update of its field.
\<close>

record ConnectionOptions =
  opt_timeout :: Duration
  opt_total_timeout :: Duration
  opt_query_timeout :: Duration
  opt_connect_tcp_timeout :: "Duration option"
  opt_connect_attempts :: "32 word"
  opt_dscp :: "8 word option"
  opt_sni_server_name :: "string option"
  opt_ssl_options_provider :: "ptr option"
  opt_cert_validation_callback :: "CertValidatorCallback option"
  opt_cert_validation_context :: ptr
  opt_op_ptr_as_validation_context :: bool
  opt_reset_conn_before_close :: bool
  opt_delayed_reset_conn :: bool
  opt_change_user :: bool
  opt_attributes :: "(string \<times> string) list"
  opt_compression :: "nat option"

text \<open>
  What \<open>mysqlCertValidator\<close> sees behind its \<open>context\<close> pointer: the address of the
  \<open>ConnectOperation\<close>, the number of \<open>shared_ptr\<close> owners it still has
  (\<open>weak_from_this().lock()\<close> gives a non-null pointer exactly when there is one), and its
  connection options. \<open>CHECK_NOTNULL\<close> and \<open>CHECK\<close> abort the process.
\<close>

record ConnectOperationRef =
  self_addr :: ptr
  use_count :: nat
  ref_options :: ConnectionOptions

datatype fatal = CheckFailed

definition weak_lock :: "ConnectOperationRef \<Rightarrow> ptr" where
  "weak_lock self = (if 0 < use_count self then self_addr self else 0)"

text \<open>
  The result is the returned \<open>int\<close> and the value of \<open>*errptr\<close> afterwards.
\<close>

definition mysqlCertValidator ::
    "ptr \<Rightarrow> ConnectOperationRef option \<Rightarrow> ptr \<Rightarrow> fatal + (int \<times> ptr)" where
  "mysqlCertValidator server_cert context errptr =
     (case context of
        None \<Rightarrow> Inl CheckFailed
      | Some self \<Rightarrow>
          if weak_lock self = 0 then Inr (0, errptr)
          else
            (case opt_cert_validation_callback (ref_options self) of
               None \<Rightarrow> Inl CheckFailed
             | Some callback \<Rightarrow>
                 let callbackContext =
                       (if opt_op_ptr_as_validation_context (ref_options self)
                        then self_addr self
                        else opt_cert_validation_context (ref_options self));
                     (ok, errorMessage) = callback server_cert callbackContext empty_piece;
                     result = (if ok then 0 else 1)
                 in if sp_size errorMessage \<noteq> 0
                    then Inr (result, sp_data errorMessage)
                    else Inr (result, errptr)))"

text \<open>
  The convention written above the callback's call in the source: \<open>libmysql\<close> reads 0 as
  "the certificate is valid" and 1 as "validation failed".
\<close>

definition cert_ok :: int where
  "cert_ok = 0"

definition cert_failed :: int where
  "cert_failed = 1"

section \<open>ConnectOperationImpl: state, collaborators and their answers\<close>

text \<open>
  Calls that leave \<^verbatim>\<open>ConnectOperation.cpp\<close> (into the connection, the client, the event
  base, the logger, the base class) are recorded, in order, in the operation's \<open>trace\<close>.
\<close>

datatype FailureReason = DATABASE_ERROR | TIMEOUT | CANCELLED

datatype call =
    ActiveConnectionAdded
  | ActiveConnectionRemoved
  | ConnInitialize
  | ConnInitMysqlOnly
  | ConnSetConnectAttributes "(string \<times> string) list"
  | ConnSetCompression nat
  | ConnSetSSLOptionsProvider ptr
  | ConnSetSniServerName string
  | ConnSetDscp "8 word"
  | ConnSetCertValidatorCallback
  | ConnSetConnectTimeout nat
  | TcpScheduleTimeout nat
  | TcpCancelTimeout
  | TryConnect
  | ChangeHandlerFD int
  | ConnSetConnectionContext
  | ConnectionOpened
  | WaitForActionable
  | LogThreadBlockTime
  | SetDuration
  | LogConnectionSuccess
  | LogConnectionFailure FailureReason nat string
  | UnregisterHandler
  | CancelTimeout
  | ConnClose
  | SetTimeoutInternal Duration
  | ConnSetCallbacks
  | ConnStoreSession ptr
  | IncrReusedSSLSessions
  | ConnSetConnectionOptions
  | ConnSetKillOnQueryTimeout bool
  | ConnNotify
  | ConnectCallback ptr
  | PostSpecializedRunImpl
  | ScheduleTimeout Duration
  | PostedFunctionRuns

record ConnectionContext =
  isSslConnection :: bool
  sslSessionReused :: bool
  sslVersion :: string
  endpointVersion :: string

record ConnectOperationImpl =
  op_state :: OperationState
  op_result :: OperationResult
  conn_options :: ConnectionOptions
  attempts_made :: "32 word"
  active_in_client :: bool
  killOnQueryTimeout :: bool
  op_timeout :: Duration
  tcp_timeout_scheduled :: bool
  connect_callback :: "ptr option"
  connection_context :: "ConnectionContext option"
  mysql_errno :: nat
  mysql_error :: string
  op_attributes :: "(string \<times> string) list"
  op_compression :: "nat option"
  trace :: "call list"

datatype ConnVariant = SyncConn | AsyncConn

text \<open>
  Everything the operation reads from outside the two source files: the constants and
  flags declared elsewhere, the connection key, the kind of connection, and the answers
  of the collaborators. An answer may change from one call to the next, so it is a
  function of the calls made so far.
\<close>

record params =
  CR_SERVER_LOST :: nat
  SQ_ERRNO_CONN_TIMEOUT :: "16 word"
  SQ_ERRNO_CONN_TIMEOUT_LOOP_STALLED :: "16 word"
  SQ_INITIALIZATION_FAILED :: "16 word"
  kCallbackDelayStallThresholdUs :: nat
  kErrorPrefix :: string
  FLAGS_async_mysql_connect_tcp_timeout_micros :: Duration
  isPoolConnection_default :: bool
  key_host :: string
  key_port :: nat
  key_unixSocketPath :: string
  conn_variant :: ConnVariant
  isEventBaseSet :: bool
  operationType_is_Connect :: bool

record env = params +
  tryConnect :: "call list \<Rightarrow> Status"
  conn_getErrno :: "call list \<Rightarrow> nat"
  conn_getErrorMessage :: "call list \<Rightarrow> string"
  conn_getSocketDescriptor :: "call list \<Rightarrow> int"
  conn_isDoneWithTcpHandShake :: "call list \<Rightarrow> bool"
  conn_hasInitialized :: "call list \<Rightarrow> bool"
  conn_ok :: "call list \<Rightarrow> bool"
  conn_getTlsVersion :: "call list \<Rightarrow> string"
  conn_serverInfo :: "call list \<Rightarrow> string"
  conn_getConnectStageName :: "call list \<Rightarrow> string"
  conn_setSSLOptionsProvider :: "call list \<Rightarrow> bool"
  conn_storeSession :: "call list \<Rightarrow> bool"
  eventBase_accepts :: "call list \<Rightarrow> bool"
  opElapsed :: "call list \<Rightarrow> Duration"
  callbackDelayMicrosAvg :: "call list \<Rightarrow> nat"
  timeoutMessage :: "Duration \<Rightarrow> nat \<Rightarrow> string"
  threadOverloadMessage :: "nat \<Rightarrow> string"

definition called :: "call \<Rightarrow> ConnectOperationImpl \<Rightarrow> ConnectOperationImpl" where
  "called c s = s\<lparr>trace := trace s @ [c]\<rparr>"

subsection \<open>The base class and the small collaborators\<close>

text \<open>
  Modelled from the spec: the members of \<open>OperationBase\<close> that \<^verbatim>\<open>ConnectOperation.cpp\<close>
  calls and that are defined in \<^verbatim>\<open>Operation.h\<close> / \<^verbatim>\<open>Operation.cpp\<close>, outside the sources.
  \<^item> \<open>OperationImpl::setTimeout\<close> and \<open>setTimeoutInternal\<close> store the timeout of the current
    attempt (section 4.2: they "recompute the current attempt's deadline", "rearm").
  \<^item> \<open>setAsyncClientError\<close> and \<open>snapshotMysqlErrors\<close> store the pair \<open>{errno, message}\<close>
    the operation reports (section 4.1, failure semantics).
  \<^item> \<open>hasOpElapsed d\<close>: the total elapsed time of the operation exceeds \<open>d\<close> (section 4.2,
    "total elapsed > totalTimeout + 1ms").
  \<^item> \<open>completeOperation\<close> enters \<open>Completed\<close> with the result, unregisters the descriptor,
    cancels the timeout and calls \<open>specializedCompleteOperation\<close> (section 4.1, step 5).
\<close>

definition OperationImpl_setTimeout :: "Duration \<Rightarrow> ConnectOperationImpl \<Rightarrow> ConnectOperationImpl" where
  "OperationImpl_setTimeout t s = s\<lparr>op_timeout := t\<rparr>"

definition setTimeoutInternal :: "Duration \<Rightarrow> ConnectOperationImpl \<Rightarrow> ConnectOperationImpl" where
  "setTimeoutInternal t s = called (SetTimeoutInternal t) (s\<lparr>op_timeout := t\<rparr>)"

definition setAsyncClientError :: "nat \<Rightarrow> string \<Rightarrow> ConnectOperationImpl \<Rightarrow> ConnectOperationImpl" where
  "setAsyncClientError errno msg s = s\<lparr>mysql_errno := errno, mysql_error := msg\<rparr>"

definition snapshotMysqlErrors :: "nat \<Rightarrow> string \<Rightarrow> ConnectOperationImpl \<Rightarrow> ConnectOperationImpl" where
  "snapshotMysqlErrors errno msg s = s\<lparr>mysql_errno := errno, mysql_error := msg\<rparr>"

definition hasOpElapsed :: "env \<Rightarrow> ConnectOperationImpl \<Rightarrow> Duration \<Rightarrow> bool" where
  "hasOpElapsed e s d = (d < opElapsed e (trace s))"

definition opElapsedMs :: "env \<Rightarrow> ConnectOperationImpl \<Rightarrow> nat" where
  "opElapsedMs e s = unat (opElapsed e (trace s)) div 1000"

definition tcp_timeout_handler_cancelTimeout :: "ConnectOperationImpl \<Rightarrow> ConnectOperationImpl" where
  "tcp_timeout_handler_cancelTimeout s = called TcpCancelTimeout (s\<lparr>tcp_timeout_scheduled := False\<rparr>)"

definition tcp_timeout_handler_scheduleTimeout :: "nat \<Rightarrow> ConnectOperationImpl \<Rightarrow> ConnectOperationImpl" where
  "tcp_timeout_handler_scheduleTimeout ms s =
     called (TcpScheduleTimeout ms) (s\<lparr>tcp_timeout_scheduled := True\<rparr>)"

subsection \<open>The members defined in ConnectOperation.cpp\<close>

definition removeClientReference :: "ConnectOperationImpl \<Rightarrow> ConnectOperationImpl" where
  "removeClientReference s =
     (if active_in_client s
      then called ActiveConnectionRemoved (s\<lparr>active_in_client := False\<rparr>)
      else s)"

definition logConnectCompleted ::
    "env \<Rightarrow> OperationResult \<Rightarrow> ConnectOperationImpl \<Rightarrow> ConnectOperationImpl" where
  "logConnectCompleted e result s =
     (if \<not> conn_hasInitialized e (trace s) then s
      else if result = Succeeded then
        called LogConnectionSuccess
          (case connection_context s of
             None \<Rightarrow> s
           | Some c \<Rightarrow>
               s\<lparr>connection_context := Some (c\<lparr>sslVersion := conn_getTlsVersion e (trace s)\<rparr>)\<rparr>)
      else
        called
          (LogConnectionFailure
             (if result = TimedOut then TIMEOUT
              else if result = Cancelled then CANCELLED
              else DATABASE_ERROR)
             (mysql_errno s) (mysql_error s))
          s)"

definition maybeStoreSSLSession :: "env \<Rightarrow> ConnectOperationImpl \<Rightarrow> ConnectOperationImpl" where
  "maybeStoreSSLSession e s =
     (if op_result s \<noteq> Succeeded \<or> \<not> conn_hasInitialized e (trace s) then s
      else
        (case opt_ssl_options_provider (conn_options s) of
           None \<Rightarrow> s
         | Some provider \<Rightarrow>
             let s1 = called (ConnStoreSession provider) s
             in if conn_storeSession e (trace s)
                then called IncrReusedSSLSessions
                       (case connection_context s1 of
                          None \<Rightarrow> s1
                        | Some c \<Rightarrow> s1\<lparr>connection_context := Some (c\<lparr>sslSessionReused := True\<rparr>)\<rparr>)
                else s1))"

definition specializedCompleteOperation :: "env \<Rightarrow> ConnectOperationImpl \<Rightarrow> ConnectOperationImpl" where
  "specializedCompleteOperation e s =
     (let s1 = called ConnSetCallbacks s;
          s2 = (if operationType_is_Connect e then maybeStoreSSLSession e s1 else s1);
          s3 = (case connection_context s2 of
                  None \<Rightarrow> s2
                | Some c \<Rightarrow>
                    if op_result s2 = Succeeded \<and> conn_ok e (trace s2)
                    then s2\<lparr>connection_context := Some (c\<lparr>endpointVersion := conn_serverInfo e (trace s2)\<rparr>)\<rparr>
                    else s2);
          s4 = tcp_timeout_handler_cancelTimeout s3;
          s5 = logConnectCompleted e (op_result s4) s4;
          s6 = called ConnSetConnectionContext
                 (called (ConnSetKillOnQueryTimeout (killOnQueryTimeout s5))
                    (called ConnSetConnectionOptions s5));
          s7 = called ConnNotify s6;
          s8 = (case connect_callback s7 of
                  None \<Rightarrow> s7
                | Some cb \<Rightarrow> (called (ConnectCallback cb) s7)\<lparr>connect_callback := None\<rparr>)
      in removeClientReference s8)"

definition completeOperationInner ::
    "env \<Rightarrow> OperationResult \<Rightarrow> ConnectOperationImpl \<Rightarrow> ConnectOperationImpl" where
  "completeOperationInner e result s =
     specializedCompleteOperation e
       (called CancelTimeout
          (called UnregisterHandler (s\<lparr>op_state := Completed, op_result := result\<rparr>)))"

definition completeOperation ::
    "env \<Rightarrow> OperationResult \<Rightarrow> ConnectOperationImpl \<Rightarrow> ConnectOperationImpl" where
  "completeOperation e result s = completeOperationInner e result s"

definition shouldCompleteOperation :: "env \<Rightarrow> OperationResult \<Rightarrow> ConnectOperationImpl \<Rightarrow> bool" where
  "shouldCompleteOperation e result s =
     (if opt_connect_attempts (conn_options s) \<le> attempts_made s \<or> result = Cancelled then True
      else hasOpElapsed e s (opt_total_timeout (conn_options s) + 1000))"

definition attemptSucceeded ::
    "env \<Rightarrow> OperationResult \<Rightarrow> ConnectOperationImpl \<Rightarrow> ConnectOperationImpl" where
  "attemptSucceeded e result s =
     completeOperation e result (s\<lparr>attempts_made := attempts_made s + 1\<rparr>)"

text \<open>
  \<open>folly::join\<close> and \<open>fmt::format ("{}", n)\<close> for an unsigned number.
\<close>

fun join :: "string \<Rightarrow> string list \<Rightarrow> string" where
  "join sep [] = []"
| "join sep [x] = x"
| "join sep (x # y # ys) = x @ sep @ join sep (y # ys)"

fun format_nat :: "nat \<Rightarrow> string" where
  "format_nat n =
     (if n < 10 then [''0123456789'' ! n]
      else format_nat (n div 10) @ [''0123456789'' ! (n mod 10)])"

text \<open>
  \<open>SyncConnection::runInThread\<close>, \<open>notify\<close> and \<open>wait\<close>, and \<open>SyncMysqlClient::runInThread\<close>
  (whose second argument is unused): the function runs at once, on the caller's state.
\<close>

definition SyncConnection_runInThread :: "('s \<Rightarrow> 's) \<Rightarrow> 's \<Rightarrow> bool \<times> 's" where
  "SyncConnection_runInThread fn s = (True, fn s)"




text \<open>
  Lines 185 to 232 of \<open>specializedRunImpl\<close>: everything it does before its last statement,
  the call of \<open>actionable\<close>.
\<close>

definition specializedRunImpl_setup :: "env \<Rightarrow> ConnectOperationImpl \<Rightarrow> ConnectOperationImpl" where
  "specializedRunImpl_setup e s =
     (let s1 = (if attempts_made s = 0 then called ConnInitialize s else called ConnInitMysqlOnly s);
          s2 = removeClientReference s1;
          s3 = called (ConnSetConnectAttributes (op_attributes s2)) s2;
          s4 = (case op_compression s3 of None \<Rightarrow> s3 | Some lib \<Rightarrow> called (ConnSetCompression lib) s3);
          s5 = (case opt_ssl_options_provider (conn_options s4) of
                  None \<Rightarrow> s4
                | Some provider \<Rightarrow>
                    let s' = called (ConnSetSSLOptionsProvider provider) s4
                    in (case connection_context s' of
                          None \<Rightarrow> s'
                        | Some c \<Rightarrow>
                            if conn_setSSLOptionsProvider e (trace s4)
                            then s'\<lparr>connection_context := Some (c\<lparr>isSslConnection := True\<rparr>)\<rparr>
                            else s'));
          s6 = (case opt_sni_server_name (conn_options s5) of
                  None \<Rightarrow> s5
                | Some name \<Rightarrow> called (ConnSetSniServerName name) s5);
          s7 = (case opt_dscp (conn_options s6) of
                  None \<Rightarrow> s6
                | Some dscp \<Rightarrow> called (ConnSetDscp dscp) s6);
          s8 = (case opt_cert_validation_callback (conn_options s7) of
                  None \<Rightarrow> s7
                | Some cb \<Rightarrow> called ConnSetCertValidatorCallback s7);
          timeout = unat (case opt_connect_tcp_timeout (conn_options s8) of
                             None \<Rightarrow> FLAGS_async_mysql_connect_tcp_timeout_micros e
                           | Some t \<Rightarrow> t) div 1000
      in if timeout \<noteq> 0
         then (let s9 = called (ConnSetConnectTimeout timeout) s8
               in if isEventBaseSet e then tcp_timeout_handler_scheduleTimeout timeout s9 else s9)
         else s8)"

subsection \<open>What the helpers leave unchanged\<close>

lemma SyncConnection_runInThread_cong [fundef_cong]:
  "s = s' \<Longrightarrow> (\<And>x. x = s' \<Longrightarrow> f x = g x) \<Longrightarrow>
   SyncConnection_runInThread f s = SyncConnection_runInThread g s'"
  by (simp add: SyncConnection_runInThread_def)

text \<open>
  \<open>client_balance\<close> counts the removals reported to the client so far, plus the one still
  owed while \<open>active_in_client_\<close> is set. Two states are in \<open>frame\<close> when they agree on
  the state, the result, the attempt counter and the options of the operation, on the
  balance with the client, and on how often a function was posted to the event base.
\<close>

definition client_balance :: "ConnectOperationImpl \<Rightarrow> nat" where
  "client_balance s =
     count_list (trace s) ActiveConnectionRemoved + (if active_in_client s then 1 else 0)"

definition frame :: "ConnectOperationImpl \<Rightarrow> ConnectOperationImpl \<Rightarrow> bool" where
  "frame s s' =
     (op_state s' = op_state s \<and> op_result s' = op_result s \<and>
      attempts_made s' = attempts_made s \<and> conn_options s' = conn_options s \<and>
      client_balance s' = client_balance s \<and>
      count_list (trace s') ActiveConnectionAdded = count_list (trace s) ActiveConnectionAdded \<and>
      count_list (trace s') PostSpecializedRunImpl = count_list (trace s) PostSpecializedRunImpl)"

lemma frame_refl [simp]: "frame s s"
  by (simp add: frame_def)

lemma frame_called [simp]:
  "c \<noteq> ActiveConnectionAdded \<Longrightarrow> c \<noteq> ActiveConnectionRemoved \<Longrightarrow>
   c \<noteq> PostSpecializedRunImpl \<Longrightarrow> frame s (called c x) = frame s x"
  by (simp add: frame_def called_def client_balance_def)

lemma frame_updates [simp]:
  "frame s (x\<lparr>connection_context := cc\<rparr>) = frame s x"
  "frame s (x\<lparr>tcp_timeout_scheduled := b\<rparr>) = frame s x"
  "frame s (x\<lparr>connect_callback := cb\<rparr>) = frame s x"
  "frame s (x\<lparr>op_timeout := t\<rparr>) = frame s x"
  "frame s (x\<lparr>mysql_errno := n\<rparr>) = frame s x"
  "frame s (x\<lparr>mysql_error := m\<rparr>) = frame s x"
  by (simp_all add: frame_def client_balance_def)

lemma frame_removeClientReference [simp]:
  "frame s (removeClientReference x) = frame s x"
  by (simp add: frame_def removeClientReference_def called_def client_balance_def)

lemma Let_frame: "frame s a \<Longrightarrow> (\<And>x. frame s x \<Longrightarrow> frame s (f x)) \<Longrightarrow> frame s (Let a f)"
  by simp

lemma frame_tcp_cancel [simp]: "frame s (tcp_timeout_handler_cancelTimeout x) = frame s x"
  by (simp add: tcp_timeout_handler_cancelTimeout_def)

lemma frame_tcp_schedule [simp]: "frame s (tcp_timeout_handler_scheduleTimeout ms x) = frame s x"
  by (simp add: tcp_timeout_handler_scheduleTimeout_def)

lemma frame_setTimeoutInternal [simp]: "frame s (setTimeoutInternal d x) = frame s x"
  by (simp add: setTimeoutInternal_def)

lemma frame_errors [simp]:
  "frame s (setAsyncClientError n m x) = frame s x"
  "frame s (snapshotMysqlErrors n m x) = frame s x"
  by (simp_all add: setAsyncClientError_def snapshotMysqlErrors_def)

lemma frame_logConnectCompleted [simp]:
  "frame s x \<Longrightarrow> frame s (logConnectCompleted e r x)"
  by (simp add: logConnectCompleted_def split: option.splits)

lemma frame_maybeStoreSSLSession [simp]:
  "frame s x \<Longrightarrow> frame s (maybeStoreSSLSession e x)"
  by (simp add: maybeStoreSSLSession_def Let_def split: option.splits)

lemma frame_specializedRunImpl_setup:
  "frame s (specializedRunImpl_setup e s)"
  unfolding specializedRunImpl_setup_def
  by (intro Let_frame) (simp_all add: Let_def split: option.splits)

lemma frame_specializedCompleteOperation:
  "frame s (specializedCompleteOperation e s)"
  unfolding specializedCompleteOperation_def
  by (intro Let_frame) (simp_all add: Let_def split: option.splits)

definition attempts_left :: "ConnectOperationImpl \<Rightarrow> nat" where
  "attempts_left s =
     (if attempts_made s < opt_connect_attempts (conn_options s)
      then unat (opt_connect_attempts (conn_options s)) - unat (attempts_made s)
      else unat (opt_connect_attempts (conn_options s)) + 1)"

lemma frame_attempts_left: "frame s s' \<Longrightarrow> attempts_left s' = attempts_left s"
  by (simp add: frame_def attempts_left_def)

lemma unat_succ_below: "a < c \<Longrightarrow> unat (a + 1) = Suc (unat a)" for a c :: "32 word"
  by unat_arith

lemma attempts_left_incr:
  assumes "\<not> opt_connect_attempts (conn_options s) \<le> attempts_made s + 1"
  shows "attempts_left (s\<lparr>attempts_made := attempts_made s + 1\<rparr>) < attempts_left s"
proof (cases "attempts_made s < opt_connect_attempts (conn_options s)")
  case True
  then have "unat (attempts_made s + 1) = Suc (unat (attempts_made s))"
    by (rule unat_succ_below)
  moreover from True have "unat (attempts_made s) < unat (opt_connect_attempts (conn_options s))"
    by (simp add: word_less_nat_alt)
  ultimately show ?thesis
    using assms True by (simp add: attempts_left_def not_le)
next
  case False
  then show ?thesis
    using assms by (simp add: attempts_left_def not_le)
qed

lemma attempts_left_simps [simp]:
  "attempts_left (called c x) = attempts_left x"
  "attempts_left (snapshotMysqlErrors n m x) = attempts_left x"
  "attempts_left (setAsyncClientError n m x) = attempts_left x"
  "attempts_left (tcp_timeout_handler_cancelTimeout x) = attempts_left x"
  "attempts_left (setTimeoutInternal d x) = attempts_left x"
  "attempts_left (logConnectCompleted e r x) = attempts_left x"
  "attempts_left (specializedRunImpl_setup e x) = attempts_left x"
proof -
  show "attempts_left (called c x) = attempts_left x"
    by (simp add: attempts_left_def called_def)
  show "attempts_left (snapshotMysqlErrors n m x) = attempts_left x"
    by (simp add: attempts_left_def snapshotMysqlErrors_def)
  show "attempts_left (setAsyncClientError n m x) = attempts_left x"
    by (simp add: attempts_left_def setAsyncClientError_def)
  show "attempts_left (tcp_timeout_handler_cancelTimeout x) = attempts_left x"
    by (simp add: attempts_left_def tcp_timeout_handler_cancelTimeout_def called_def)
  show "attempts_left (setTimeoutInternal d x) = attempts_left x"
    by (simp add: attempts_left_def setTimeoutInternal_def called_def)
  have "frame x (logConnectCompleted e r x)"
    by simp
  then show "attempts_left (logConnectCompleted e r x) = attempts_left x"
    by (rule frame_attempts_left)
  show "attempts_left (specializedRunImpl_setup e x) = attempts_left x"
    using frame_specializedRunImpl_setup by (rule frame_attempts_left)
qed

lemma retry_decreases:
  assumes "\<not> shouldCompleteOperation e result (s\<lparr>attempts_made := attempts_made s + 1\<rparr>)"
  shows "attempts_left (s\<lparr>attempts_made := attempts_made s + 1\<rparr>) < attempts_left s"
proof -
  have "\<not> opt_connect_attempts (conn_options s) \<le> attempts_made s + 1"
    using assms by (simp add: shouldCompleteOperation_def split: if_splits)
  then show ?thesis
    by (rule attempts_left_incr)
qed

subsection \<open>The attempt loop\<close>

text \<open>
  \<open>attemptFailed\<close>, \<open>specializedRun\<close>, \<open>specializedRunImpl\<close> and \<open>actionable\<close> call each
  other: a failed attempt that is retried runs the next attempt from inside
  \<open>attemptFailed\<close>. On a synchronous connection \<open>runInThread\<close> runs \<open>specializedRunImpl\<close>
  at once.

  Modelled from the spec: \<open>runInThread\<close> of the asynchronous connection, which is not in
  the sources. It "posts fn onto the event base; returns true if accepted" (section
  4.4); the posted function runs later, as an event of its own.

  In \<open>actionable\<close> the scope guard that logs the thread block time is dismissed on every
  path but the one that waits for the socket.
\<close>

function attemptFailed :: "env \<Rightarrow> OperationResult \<Rightarrow> ConnectOperationImpl \<Rightarrow> ConnectOperationImpl"
  and specializedRun :: "env \<Rightarrow> ConnectOperationImpl \<Rightarrow> ConnectOperationImpl"
  and specializedRunImpl :: "env \<Rightarrow> ConnectOperationImpl \<Rightarrow> ConnectOperationImpl"
  and actionable :: "env \<Rightarrow> ConnectOperationImpl \<Rightarrow> ConnectOperationImpl"
where
  "attemptFailed e result s =
     (let s1 = s\<lparr>attempts_made := attempts_made s + 1\<rparr>
      in if shouldCompleteOperation e result s1 then completeOperation e result s1
         else
           (let s2 = logConnectCompleted e result (called SetDuration s1);
                s3 = tcp_timeout_handler_cancelTimeout s2;
                s4 = called ConnClose (called CancelTimeout (called UnregisterHandler s3));
                timeout_attempt_based = opt_timeout (conn_options s4) + opElapsed e (trace s4)
            in specializedRun e
                 (setTimeoutInternal
                    (min timeout_attempt_based (opt_total_timeout (conn_options s4))) s4)))"
| "specializedRun e s =
     (case conn_variant e of
        SyncConn \<Rightarrow>
          (let (accepted, s1) = SyncConnection_runInThread (specializedRunImpl e) s
           in if \<not> accepted then completeOperationInner e Failed s1 else s1)
      | AsyncConn \<Rightarrow>
          (if eventBase_accepts e (trace s) then called PostSpecializedRunImpl s
           else completeOperationInner e Failed s))"
| "specializedRunImpl e s = actionable e (specializedRunImpl_setup e s)"
| "actionable e s =
     (let usingUnixSocket = (key_unixSocketPath e \<noteq> []);
          status = tryConnect e (trace s);
          s1 = called TryConnect s
      in if status = ERROR then
           attemptFailed e Failed
             (snapshotMysqlErrors (conn_getErrno e (trace s1)) (conn_getErrorMessage e (trace s1)) s1)
         else
           (let s2 = (if (conn_isDoneWithTcpHandShake e (trace s1) \<or> usingUnixSocket)
                         \<and> tcp_timeout_scheduled s1
                      then tcp_timeout_handler_cancelTimeout s1 else s1);
                fd = conn_getSocketDescriptor e (trace s2)
            in if fd \<le> 0 then
                 attemptFailed e Failed
                   (setAsyncClientError (unat (SQ_INITIALIZATION_FAILED e))
                      ''mysql_get_socket_descriptor returned an invalid descriptor'' s2)
               else if status = DONE then
                 attemptSucceeded e Succeeded
                   (called ConnectionOpened
                      (called ConnSetConnectionContext (called (ChangeHandlerFD fd) s2)))
               else
                 called LogThreadBlockTime
                   (called WaitForActionable (called (ChangeHandlerFD fd) s2))))"
  by pat_completeness auto

termination
proof (relation "measure (\<lambda>x. case x of
            Inl (Inl (e, r, s)) \<Rightarrow> 4 * attempts_left s
          | Inl (Inr (e, s)) \<Rightarrow> 4 * attempts_left s + 3
          | Inr (Inl (e, s)) \<Rightarrow> 4 * attempts_left s + 2
          | Inr (Inr (e, s)) \<Rightarrow> 4 * attempts_left s + 1)", goal_cases)
  case 1
  show ?case by simp
next
  case (2 e result s x xa xb xc xd)
  from 2(1,2) have "attempts_left x < attempts_left s"
    using retry_decreases [of e result s] by simp
  with 2 show ?case by simp
next
  case 3
  then show ?case by simp
next
  case 4
  show ?case by simp
next
  case 5
  then show ?case by simp
next
  case 6
  then show ?case by simp
qed

declare attemptFailed.simps [simp del] specializedRun.simps [simp del]
  specializedRunImpl.simps [simp del] actionable.simps [simp del]

subsection \<open>The branches of the attempt loop\<close>

text \<open>
  \<open>retried\<close> is the operation as \<open>attemptFailed\<close> hands it to \<open>specializedRun\<close> for
  the next attempt; \<open>connected\<close> is the operation after a \<open>tryConnect\<close> that did not
  report an error, once the TCP-handshake timer has been cancelled where it must be.
\<close>

abbreviation retried :: "env \<Rightarrow> OperationResult \<Rightarrow> ConnectOperationImpl \<Rightarrow> ConnectOperationImpl" where
  "retried e result s1 \<equiv>
     (let s2 = logConnectCompleted e result (called SetDuration s1);
          s3 = tcp_timeout_handler_cancelTimeout s2;
          s4 = called ConnClose (called CancelTimeout (called UnregisterHandler s3));
          timeout_attempt_based = opt_timeout (conn_options s4) + opElapsed e (trace s4)
      in setTimeoutInternal (min timeout_attempt_based (opt_total_timeout (conn_options s4))) s4)"

abbreviation connected :: "env \<Rightarrow> ConnectOperationImpl \<Rightarrow> ConnectOperationImpl" where
  "connected e s \<equiv>
     (if (conn_isDoneWithTcpHandShake e (trace (called TryConnect s)) \<or> key_unixSocketPath e \<noteq> [])
          \<and> tcp_timeout_scheduled (called TryConnect s)
      then tcp_timeout_handler_cancelTimeout (called TryConnect s) else called TryConnect s)"

subsection \<open>Timeouts\<close>

text \<open>
  \<open>static_cast<uint16_t>\<close> of a \<open>SquangleErrno\<close> is the 16-bit value of the enumerator;
  \<open>timeoutMessage\<close> and \<open>threadOverloadMessage\<close> are members of the base class.
\<close>

definition timeoutHandler ::
    "env \<Rightarrow> bool \<Rightarrow> bool \<Rightarrow> ConnectOperationImpl \<Rightarrow> ConnectOperationImpl" where
  "timeoutHandler e isTcpTimeout isPoolConnection s =
     (let deltaMs = opElapsedMs e s;
          cbDelayUs = callbackDelayMicrosAvg e (trace s);
          stalled = (kCallbackDelayStallThresholdUs e \<le> cbDelayUs);
          parts =
            [''['' @ format_nat (unat (if stalled then SQ_ERRNO_CONN_TIMEOUT_LOOP_STALLED e
                                       else SQ_ERRNO_CONN_TIMEOUT e))
               @ '']('' @ kErrorPrefix e @ '')Connect''
               @ (if isPoolConnection then ''Pool'' else [])
               @ '' to '' @ key_host e @ '':'' @ format_nat (key_port e) @ '' timed out'']
            @ (if \<not> isPoolConnection
               then [''at stage '' @ conn_getConnectStageName e (trace s)] else [])
            @ [timeoutMessage e (op_timeout s) deltaMs]
            @ (if stalled then [threadOverloadMessage e cbDelayUs] else [])
            @ [''(TcpTimeout:'' @ format_nat (if isTcpTimeout then 1 else 0) @ '')'']
      in attemptFailed e TimedOut (setAsyncClientError (CR_SERVER_LOST e) (join '' '' parts) s))"

definition specializedTimeoutTriggered :: "env \<Rightarrow> ConnectOperationImpl \<Rightarrow> ConnectOperationImpl" where
  "specializedTimeoutTriggered e s = timeoutHandler e False (isPoolConnection_default e) s"

definition tcpConnectTimeoutTriggered :: "env \<Rightarrow> ConnectOperationImpl \<Rightarrow> ConnectOperationImpl" where
  "tcpConnectTimeoutTriggered e s =
     (if \<not> conn_isDoneWithTcpHandShake e (trace s)
      then timeoutHandler e True (isPoolConnection_default e) s
      else s)"

subsection \<open>The option setters\<close>

text \<open>
  Every single setter returns the operation it leaves behind, or the exception it throws:
  a setter with a \<open>CHECK_THROW\<close> throws before it changes anything, and the others never
  throw. The deprecated \<open>setSSLOptionsProviderBase\<close> only writes a log line after its
  check.
\<close>

definition setDefaultQueryTimeout :: "Duration \<Rightarrow> ConnectOperationImpl \<Rightarrow> exn + ConnectOperationImpl" where
  "setDefaultQueryTimeout t s =
     (if op_state s = Unstarted
      then Inr (s\<lparr>conn_options := (conn_options s)\<lparr>opt_query_timeout := t\<rparr>\<rparr>)
      else Inl OperationStateException)"

definition setSniServerName :: "string \<Rightarrow> ConnectOperationImpl \<Rightarrow> exn + ConnectOperationImpl" where
  "setSniServerName sni_servername s =
     (if op_state s = Unstarted
      then Inr (s\<lparr>conn_options := (conn_options s)\<lparr>opt_sni_server_name := Some sni_servername\<rparr>\<rparr>)
      else Inl OperationStateException)"

definition enableResetConnBeforeClose :: "ConnectOperationImpl \<Rightarrow> exn + ConnectOperationImpl" where
  "enableResetConnBeforeClose s =
     Inr (s\<lparr>conn_options := (conn_options s)\<lparr>opt_reset_conn_before_close := True\<rparr>\<rparr>)"

definition enableDelayedResetConn :: "ConnectOperationImpl \<Rightarrow> exn + ConnectOperationImpl" where
  "enableDelayedResetConn s =
     Inr (s\<lparr>conn_options := (conn_options s)\<lparr>opt_delayed_reset_conn := True\<rparr>\<rparr>)"

definition enableChangeUser :: "ConnectOperationImpl \<Rightarrow> exn + ConnectOperationImpl" where
  "enableChangeUser s =
     Inr (s\<lparr>conn_options := (conn_options s)\<lparr>opt_change_user := True\<rparr>\<rparr>)"

definition setCertValidationCallback ::
    "CertValidatorCallback option \<Rightarrow> ptr \<Rightarrow> bool \<Rightarrow> ConnectOperationImpl \<Rightarrow> exn + ConnectOperationImpl" where
  "setCertValidationCallback callback context opPtrAsContext s =
     (if op_state s = Unstarted
      then Inr (s\<lparr>conn_options := (conn_options s)
                  \<lparr>opt_cert_validation_callback := callback,
                   opt_cert_validation_context := context,
                   opt_op_ptr_as_validation_context := opPtrAsContext\<rparr>\<rparr>)
      else Inl OperationStateException)"

definition setTimeout :: "Duration \<Rightarrow> ConnectOperationImpl \<Rightarrow> exn + ConnectOperationImpl" where
  "setTimeout timeout s =
     Inr (OperationImpl_setTimeout timeout
            (s\<lparr>conn_options := (conn_options s)\<lparr>opt_timeout := timeout\<rparr>\<rparr>))"

definition setTcpTimeout :: "Duration \<Rightarrow> ConnectOperationImpl \<Rightarrow> exn + ConnectOperationImpl" where
  "setTcpTimeout timeout s =
     Inr (s\<lparr>conn_options := (conn_options s)\<lparr>opt_connect_tcp_timeout := Some timeout\<rparr>\<rparr>)"

definition setTotalTimeout :: "Duration \<Rightarrow> ConnectOperationImpl \<Rightarrow> exn + ConnectOperationImpl" where
  "setTotalTimeout total_timeout s =
     (let s1 = s\<lparr>conn_options := (conn_options s)\<lparr>opt_total_timeout := total_timeout\<rparr>\<rparr>
      in Inr (OperationImpl_setTimeout (min (op_timeout s1) total_timeout) s1))"

definition setConnectAttempts :: "32 word \<Rightarrow> ConnectOperationImpl \<Rightarrow> exn + ConnectOperationImpl" where
  "setConnectAttempts max_attempts s =
     (if op_state s = Unstarted
      then Inr (s\<lparr>conn_options := (conn_options s)\<lparr>opt_connect_attempts := max_attempts\<rparr>\<rparr>)
      else Inl OperationStateException)"

definition setDscp :: "8 word \<Rightarrow> ConnectOperationImpl \<Rightarrow> exn + ConnectOperationImpl" where
  "setDscp dscp s =
     (if op_state s = Unstarted
      then Inr (s\<lparr>conn_options := (conn_options s)\<lparr>opt_dscp := Some dscp\<rparr>\<rparr>)
      else Inl OperationStateException)"

definition setKillOnQueryTimeout :: "bool \<Rightarrow> ConnectOperationImpl \<Rightarrow> exn + ConnectOperationImpl" where
  "setKillOnQueryTimeout b s =
     (if op_state s = Unstarted then Inr (s\<lparr>killOnQueryTimeout := b\<rparr>)
      else Inl OperationStateException)"

definition setSSLOptionsProviderBase :: "ptr \<Rightarrow> ConnectOperationImpl \<Rightarrow> exn + ConnectOperationImpl" where
  "setSSLOptionsProviderBase ssl_options_provider s =
     (if op_state s = Unstarted then Inr s else Inl OperationStateException)"

definition setSSLOptionsProvider :: "ptr option \<Rightarrow> ConnectOperationImpl \<Rightarrow> exn + ConnectOperationImpl" where
  "setSSLOptionsProvider ssl_options_provider s =
     (if op_state s = Unstarted
      then Inr (s\<lparr>conn_options := (conn_options s)\<lparr>opt_ssl_options_provider := ssl_options_provider\<rparr>\<rparr>)
      else Inl OperationStateException)"

text \<open>
  Modelled from the spec: \<open>setAttributes\<close> and \<open>setCompression\<close>, inherited from
  \<^verbatim>\<open>Operation.h\<close>. Section 2: "Options may only be set while operation is \<open>Unstarted\<close>;
  violations fail with \<open>InvalidStateError\<close>". They store what \<open>getAttributes\<close> and
  \<open>getCompression\<close> return to \<open>specializedRunImpl\<close>.
\<close>

definition setAttributes ::
    "(string \<times> string) list \<Rightarrow> ConnectOperationImpl \<Rightarrow> exn + ConnectOperationImpl" where
  "setAttributes attributes s =
     (if op_state s = Unstarted then Inr (s\<lparr>op_attributes := attributes\<rparr>)
      else Inl OperationStateException)"

definition setCompression :: "nat option \<Rightarrow> ConnectOperationImpl \<Rightarrow> exn + ConnectOperationImpl" where
  "setCompression compression_lib s =
     (if op_state s = Unstarted then Inr (s\<lparr>op_compression := compression_lib\<rparr>)
      else Inl OperationStateException)"

text \<open>
  \<open>setConnectionOptions\<close> calls the setters one after the other. When one of them throws,
  the exception leaves \<open>setConnectionOptions\<close> and the operation stays as the setters
  before it have left it: the result is then the exception together with that
  operation. \<open>and_then\<close> is the sequencing of two statements, \<open>when_set\<close> a statement under
  \<open>if (option)\<close>.
\<close>

definition and_then ::
    "(exn \<times> ConnectOperationImpl) + ConnectOperationImpl \<Rightarrow>
     (ConnectOperationImpl \<Rightarrow> exn + ConnectOperationImpl) \<Rightarrow>
     (exn \<times> ConnectOperationImpl) + ConnectOperationImpl" where
  "and_then r f =
     (case r of
        Inl x \<Rightarrow> Inl x
      | Inr s \<Rightarrow> (case f s of Inl x \<Rightarrow> Inl (x, s) | Inr s' \<Rightarrow> Inr s'))"

definition when_set ::
    "'a option \<Rightarrow> ('a \<Rightarrow> ConnectOperationImpl \<Rightarrow> exn + ConnectOperationImpl) \<Rightarrow>
     ConnectOperationImpl \<Rightarrow> exn + ConnectOperationImpl" where
  "when_set v f s = (case v of None \<Rightarrow> Inr s | Some x \<Rightarrow> f x s)"

definition setConnectionOptions ::
    "ConnectionOptions \<Rightarrow> ConnectOperationImpl \<Rightarrow>
     (exn \<times> ConnectOperationImpl) + ConnectOperationImpl" where
  "setConnectionOptions conn_opts s =
     foldl and_then (Inr s)
       [setTimeout (opt_timeout conn_opts),
        setDefaultQueryTimeout (opt_query_timeout conn_opts),
        setAttributes (opt_attributes conn_opts),
        setConnectAttempts (opt_connect_attempts conn_opts),
        when_set (opt_dscp conn_opts) setDscp,
        setTotalTimeout (opt_total_timeout conn_opts),
        setCompression (opt_compression conn_opts),
        when_set (opt_connect_tcp_timeout conn_opts) setTcpTimeout,
        when_set (opt_sni_server_name conn_opts) setSniServerName,
        when_set (opt_ssl_options_provider conn_opts) (\<lambda>provider. setSSLOptionsProvider (Some provider)),
        when_set (opt_cert_validation_callback conn_opts)
          (\<lambda>callback. setCertValidationCallback (Some callback)
             (opt_cert_validation_context conn_opts)
             (opt_op_ptr_as_validation_context conn_opts))]"

subsection \<open>The life of an operation\<close>

text \<open>
  The constructor takes the members it does not set itself (the default-constructed
  options, the callbacks) as they are, marks the operation active in its client and
  reports it with \<open>activeConnectionAdded\<close>; the destructor calls \<open>removeClientReference\<close>.
  Modelled from the spec: the default member initialisers of \<^verbatim>\<open>ConnectOperation.h\<close> and
  \<^verbatim>\<open>Operation.h\<close>, by which a new operation is \<open>Unstarted\<close> (section 3) and has made no
  attempt.
\<close>

definition ConnectOperationImpl_ctor :: "ConnectOperationImpl \<Rightarrow> ConnectOperationImpl" where
  "ConnectOperationImpl_ctor members =
     members\<lparr>op_state := Unstarted, attempts_made := 0, active_in_client := True,
             tcp_timeout_scheduled := False, trace := [ActiveConnectionAdded]\<rparr>"

definition ConnectOperationImpl_dtor :: "ConnectOperationImpl \<Rightarrow> ConnectOperationImpl" where
  "ConnectOperationImpl_dtor s = removeClientReference s"

text \<open>
  Modelled from the spec: \<open>Operation::run\<close>, defined in \<^verbatim>\<open>Operation.cpp\<close>. Section 4.1:
  "move to \<open>Pending\<close>; arm the per-attempt timeout if non-zero; post \<open>specializedRun\<close>
  onto the event loop thread. Idempotent violation (second call) fails
  \<open>InvalidStateError\<close>."
\<close>

definition run :: "env \<Rightarrow> ConnectOperationImpl \<Rightarrow> exn + ConnectOperationImpl" where
  "run e s =
     (if op_state s = Unstarted then
        (let s1 = s\<lparr>op_state := Pending\<rparr>;
             s2 = (if op_timeout s1 \<noteq> 0 then called (ScheduleTimeout (op_timeout s1)) s1 else s1)
         in Inr (specializedRun e s2))
      else Inl OperationStateException)"



datatype setter =
    SetDefaultQueryTimeout Duration
  | SetSniServerName string
  | EnableResetConnBeforeClose
  | EnableDelayedResetConn
  | EnableChangeUser
  | SetCertValidationCallback "CertValidatorCallback option" ptr bool
  | SetTimeout Duration
  | SetTcpTimeout Duration
  | SetTotalTimeout Duration
  | SetConnectAttempts "32 word"
  | SetDscp "8 word"
  | SetKillOnQueryTimeout bool
  | SetSSLOptionsProviderBase ptr
  | SetSSLOptionsProvider "ptr option"
  | SetAttributes "(string \<times> string) list"
  | SetCompression "nat option"
  | SetConnectionOptions ConnectionOptions

text \<open>
  A call of a setter by its name. The operation that a throwing setter leaves behind
  comes with the exception: it is the operation as it was for a single setter, which
  throws before it changes anything, and what the setters already called have made of
  it for \<open>setConnectionOptions\<close>.
\<close>

definition throwing ::
    "ConnectOperationImpl \<Rightarrow> exn + ConnectOperationImpl \<Rightarrow>
     (exn \<times> ConnectOperationImpl) + ConnectOperationImpl" where
  "throwing s r = (case r of Inl x \<Rightarrow> Inl (x, s) | Inr s' \<Rightarrow> Inr s')"

fun call_setter ::
    "setter \<Rightarrow> ConnectOperationImpl \<Rightarrow> (exn \<times> ConnectOperationImpl) + ConnectOperationImpl" where
  "call_setter (SetDefaultQueryTimeout t) s = throwing s (setDefaultQueryTimeout t s)"
| "call_setter (SetSniServerName n) s = throwing s (setSniServerName n s)"
| "call_setter EnableResetConnBeforeClose s = throwing s (enableResetConnBeforeClose s)"
| "call_setter EnableDelayedResetConn s = throwing s (enableDelayedResetConn s)"
| "call_setter EnableChangeUser s = throwing s (enableChangeUser s)"
| "call_setter (SetCertValidationCallback cb ctx b) s =
     throwing s (setCertValidationCallback cb ctx b s)"
| "call_setter (SetTimeout t) s = throwing s (setTimeout t s)"
| "call_setter (SetTcpTimeout t) s = throwing s (setTcpTimeout t s)"
| "call_setter (SetTotalTimeout t) s = throwing s (setTotalTimeout t s)"
| "call_setter (SetConnectAttempts n) s = throwing s (setConnectAttempts n s)"
| "call_setter (SetDscp d) s = throwing s (setDscp d s)"
| "call_setter (SetKillOnQueryTimeout b) s = throwing s (setKillOnQueryTimeout b s)"
| "call_setter (SetSSLOptionsProviderBase p) s = throwing s (setSSLOptionsProviderBase p s)"
| "call_setter (SetSSLOptionsProvider p) s = throwing s (setSSLOptionsProvider p s)"
| "call_setter (SetAttributes a) s = throwing s (setAttributes a s)"
| "call_setter (SetCompression c) s = throwing s (setCompression c s)"
| "call_setter (SetConnectionOptions conn_opts) s = setConnectionOptions conn_opts s"

definition after_setter :: "setter \<Rightarrow> ConnectOperationImpl \<Rightarrow> ConnectOperationImpl" where
  "after_setter c s = (case call_setter c s of Inl (x, s') \<Rightarrow> s' | Inr s' \<Rightarrow> s')"






text \<open>
  The members of \<open>ConnectOperationImpl\<close> that touch the operation, called in any order
  and in any state.
\<close>

datatype member_call =
    CallAttemptFailed OperationResult
  | CallAttemptSucceeded OperationResult
  | CallSpecializedRun
  | CallSpecializedRunImpl
  | CallActionable
  | CallSpecializedTimeoutTriggered
  | CallTcpConnectTimeoutTriggered
  | CallTimeoutHandler bool bool
  | CallSpecializedCompleteOperation
  | CallCompleteOperation OperationResult
  | CallLogConnectCompleted OperationResult
  | CallMaybeStoreSSLSession
  | CallRemoveClientReference
  | CallSetter setter

fun invoke :: "env \<Rightarrow> member_call \<Rightarrow> ConnectOperationImpl \<Rightarrow> ConnectOperationImpl" where
  "invoke e (CallAttemptFailed r) s = attemptFailed e r s"
| "invoke e (CallAttemptSucceeded r) s = attemptSucceeded e r s"
| "invoke e CallSpecializedRun s = specializedRun e s"
| "invoke e CallSpecializedRunImpl s = specializedRunImpl e s"
| "invoke e CallActionable s = actionable e s"
| "invoke e CallSpecializedTimeoutTriggered s = specializedTimeoutTriggered e s"
| "invoke e CallTcpConnectTimeoutTriggered s = tcpConnectTimeoutTriggered e s"
| "invoke e (CallTimeoutHandler isTcpTimeout isPoolConnection) s =
     timeoutHandler e isTcpTimeout isPoolConnection s"
| "invoke e CallSpecializedCompleteOperation s = specializedCompleteOperation e s"
| "invoke e (CallCompleteOperation r) s = completeOperation e r s"
| "invoke e (CallLogConnectCompleted r) s = logConnectCompleted e r s"
| "invoke e CallMaybeStoreSSLSession s = maybeStoreSSLSession e s"
| "invoke e CallRemoveClientReference s = removeClientReference s"
| "invoke e (CallSetter c) s = after_setter c s"

subsection \<open>Concrete operations and environments\<close>

text \<open>
  The options of the scenarios of section 8 (one second per attempt, five seconds in
  total, three attempts), a freshly allocated operation, and an environment whose
  constants are those of \<^verbatim>\<open>mysql/errmsg.h\<close> and of the \<open>SquangleErrno\<close> enumeration, with a
  stall threshold of 50 ms. The environment is given the kind of connection, the answers
  of \<open>tryConnect\<close>, the average callback delay and whether the TCP handshake is done.
\<close>

definition example_options :: ConnectionOptions where
  "example_options =
     \<lparr>opt_timeout = 1000000, opt_total_timeout = 5000000, opt_query_timeout = 0,
      opt_connect_tcp_timeout = None, opt_connect_attempts = 3, opt_dscp = None,
      opt_sni_server_name = None, opt_ssl_options_provider = None,
      opt_cert_validation_callback = None, opt_cert_validation_context = 0,
      opt_op_ptr_as_validation_context = False, opt_reset_conn_before_close = False,
      opt_delayed_reset_conn = False, opt_change_user = False, opt_attributes = [],
      opt_compression = None\<rparr>"

definition example_members :: ConnectOperationImpl where
  "example_members =
     \<lparr>op_state = Unstarted, op_result = Failed, conn_options = example_options,
      attempts_made = 0, active_in_client = False, killOnQueryTimeout = False,
      op_timeout = 1000000, tcp_timeout_scheduled = False, connect_callback = None,
      connection_context = None, mysql_errno = 0, mysql_error = [], op_attributes = [],
      op_compression = None, trace = []\<rparr>"

definition example_env ::
    "ConnVariant \<Rightarrow> (call list \<Rightarrow> Status) \<Rightarrow> nat \<Rightarrow> bool \<Rightarrow> env" where
  "example_env variant answers cbDelayUs handshakeDone =
     \<lparr>CR_SERVER_LOST = 2013, SQ_ERRNO_CONN_TIMEOUT = 7000,
      SQ_ERRNO_CONN_TIMEOUT_LOOP_STALLED = 7001, SQ_INITIALIZATION_FAILED = 7005,
      kCallbackDelayStallThresholdUs = 50000, kErrorPrefix = ''Mysql Client'',
      FLAGS_async_mysql_connect_tcp_timeout_micros = 0, isPoolConnection_default = False,
      key_host = ''db'', key_port = 3306, key_unixSocketPath = [],
      conn_variant = variant, isEventBaseSet = (variant = AsyncConn),
      operationType_is_Connect = True,
      tryConnect = answers,
      conn_getErrno = (\<lambda>h. 2003),
      conn_getErrorMessage = (\<lambda>h. ''refused''),
      conn_getSocketDescriptor = (\<lambda>h. 7),
      conn_isDoneWithTcpHandShake = (\<lambda>h. handshakeDone),
      conn_hasInitialized = (\<lambda>h. True),
      conn_ok = (\<lambda>h. True),
      conn_getTlsVersion = (\<lambda>h. []),
      conn_serverInfo = (\<lambda>h. []),
      conn_getConnectStageName = (\<lambda>h. ''stage''),
      conn_setSSLOptionsProvider = (\<lambda>h. False),
      conn_storeSession = (\<lambda>h. False),
      eventBase_accepts = (\<lambda>h. True),
      opElapsed = (\<lambda>h. 1000 * of_nat (length h)),
      callbackDelayMicrosAvg = (\<lambda>h. cbDelayUs),
      timeoutMessage = (\<lambda>timeout deltaMs. ''(took)''),
      threadOverloadMessage = (\<lambda>cbDelayUs. ''(CLIENT_OVERLOADED)'')\<rparr>"

text \<open>
  A validator that accepts certificate 1 and rejects every other one with an error
  message of 11 bytes at address 600, and an operation at address 4096 with a given
  number of owners.
\<close>

definition example_validator :: CertValidatorCallback where
  "example_validator cert ctx msg =
     (if cert = 1 then (True, msg) else (False, \<lparr>sp_data = 600, sp_size = 11\<rparr>))"

definition example_ref :: "nat \<Rightarrow> ConnectOperationRef" where
  "example_ref owners =
     \<lparr>self_addr = 4096, use_count = owners,
      ref_options = example_options\<lparr>opt_cert_validation_callback := Some example_validator\<rparr>\<rparr>"

text \<open>
  An operation right after \<open>run\<close> has moved it to \<open>Pending\<close>.
\<close>

definition started_operation :: ConnectOperationImpl where
  "started_operation = (ConnectOperationImpl_ctor example_members)\<lparr>op_state := Pending\<rparr>"

subsection \<open>Invariants\<close>






definition balanced :: "ConnectOperationImpl \<Rightarrow> bool" where
  "balanced s =
     (client_balance s = 1 \<and> count_list (trace s) ActiveConnectionAdded = 1)"

text \<open>
  What no setter touches, whether it returns or throws: the state, the result, the
  counter, the trace and the reference in the client, and on a started operation the
  number of attempts allowed.
\<close>

definition setter_frame :: "ConnectOperationImpl \<Rightarrow> ConnectOperationImpl \<Rightarrow> bool" where
  "setter_frame s x =
     (op_state x = op_state s \<and> op_result x = op_result s \<and>
      attempts_made x = attempts_made s \<and> trace x = trace s \<and>
      active_in_client x = active_in_client s \<and>
      (op_state s \<noteq> Unstarted \<longrightarrow>
         opt_connect_attempts (conn_options x) = opt_connect_attempts (conn_options s)))"

definition setter_result ::
    "ConnectOperationImpl \<Rightarrow> (exn \<times> ConnectOperationImpl) + ConnectOperationImpl \<Rightarrow> bool" where
  "setter_result s r = (case r of Inl (x, s') \<Rightarrow> setter_frame s s' | Inr s' \<Rightarrow> setter_frame s s')"

section \<open>Auxiliary facts\<close>

declare format_nat.simps [simp del]

lemma format_nat_digit: "n < 10 \<Longrightarrow> format_nat n = [''0123456789'' ! n]"
  by (subst format_nat.simps) simp

lemma join_prefix: "prefix x (join sep (x # xs))"
  by (cases xs) simp_all

lemma join_suffix: "suffix x (join sep (xs @ [x]))"
proof (induction sep xs rule: join.induct)
  case (1 sep)
  then show ?case by simp
next
  case (2 sep y)
  then show ?case by (simp add: suffix_def)
next
  case (3 sep y z zs)
  then show ?case
    by (metis append_Cons join.simps(3) suffix_append)
qed

text \<open>
  The equations that evaluate a run of the operation on concrete data. With
  \<open>let_weak_cong\<close> the simplifier computes a bound state before it enters the body of
  the \<open>let\<close>.
\<close>

lemmas eval_defs = example_env_def example_options_def example_members_def started_operation_def
  ConnectOperationImpl_ctor_def specializedTimeoutTriggered_def timeoutHandler_def
  tcpConnectTimeoutTriggered_def opElapsedMs_def setAsyncClientError_def snapshotMysqlErrors_def
  attemptFailed.simps specializedRun.simps specializedRunImpl.simps actionable.simps
  shouldCompleteOperation_def hasOpElapsed_def completeOperation_def completeOperationInner_def
  specializedCompleteOperation_def maybeStoreSSLSession_def logConnectCompleted_def
  removeClientReference_def tcp_timeout_handler_cancelTimeout_def
  tcp_timeout_handler_scheduleTimeout_def setTimeoutInternal_def called_def
  specializedRunImpl_setup_def attemptSucceeded_def SyncConnection_runInThread_def run_def
  format_nat.simps Let_def word_le_nat_alt word_less_nat_alt

subsection \<open>The branches of the attempt loop, and a rule for it\<close>

lemma attemptFailed_complete:
  "shouldCompleteOperation e result (s\<lparr>attempts_made := attempts_made s + 1\<rparr>) \<Longrightarrow>
   attemptFailed e result s = completeOperation e result (s\<lparr>attempts_made := attempts_made s + 1\<rparr>)"
  by (subst attemptFailed.simps) (simp add: Let_def)

lemma attemptFailed_retry:
  "\<not> shouldCompleteOperation e result (s\<lparr>attempts_made := attempts_made s + 1\<rparr>) \<Longrightarrow>
   attemptFailed e result s = specializedRun e (retried e result (s\<lparr>attempts_made := attempts_made s + 1\<rparr>))"
  by (subst attemptFailed.simps) (simp add: Let_def)

lemma frame_retried: "frame s1 (retried e result s1)"
  by (simp add: Let_def)

lemma specializedRun_sync:
  "conn_variant e = SyncConn \<Longrightarrow> specializedRun e s = specializedRunImpl e s"
  by (subst specializedRun.simps) (simp add: SyncConnection_runInThread_def)

lemma specializedRun_async:
  "conn_variant e = AsyncConn \<Longrightarrow>
   specializedRun e s =
     (if eventBase_accepts e (trace s) then called PostSpecializedRunImpl s
      else completeOperationInner e Failed s)"
  by (subst specializedRun.simps) simp

lemma actionable_error:
  "tryConnect e (trace s) = ERROR \<Longrightarrow>
   actionable e s =
     attemptFailed e Failed
       (snapshotMysqlErrors (conn_getErrno e (trace (called TryConnect s)))
          (conn_getErrorMessage e (trace (called TryConnect s))) (called TryConnect s))"
  by (subst actionable.simps) (simp add: Let_def)

lemma actionable_bad_descriptor:
  "tryConnect e (trace s) \<noteq> ERROR \<Longrightarrow>
   conn_getSocketDescriptor e (trace (connected e s)) \<le> 0 \<Longrightarrow>
   actionable e s =
     attemptFailed e Failed
       (setAsyncClientError (unat (SQ_INITIALIZATION_FAILED e))
          ''mysql_get_socket_descriptor returned an invalid descriptor'' (connected e s))"
  by (subst actionable.simps) (simp add: Let_def)

lemma actionable_done:
  "tryConnect e (trace s) = DONE \<Longrightarrow>
   \<not> conn_getSocketDescriptor e (trace (connected e s)) \<le> 0 \<Longrightarrow>
   actionable e s =
     attemptSucceeded e Succeeded
       (called ConnectionOpened (called ConnSetConnectionContext
          (called (ChangeHandlerFD (conn_getSocketDescriptor e (trace (connected e s))))
             (connected e s))))"
  by (subst actionable.simps) (simp add: Let_def)

lemma actionable_pending:
  "tryConnect e (trace s) = PENDING \<Longrightarrow>
   \<not> conn_getSocketDescriptor e (trace (connected e s)) \<le> 0 \<Longrightarrow>
   actionable e s =
     called LogThreadBlockTime (called WaitForActionable
       (called (ChangeHandlerFD (conn_getSocketDescriptor e (trace (connected e s))))
          (connected e s)))"
  by (subst actionable.simps) (simp add: Let_def)

lemma frame_connected: "frame s (connected e s)"
  by simp

lemma frame_trans: "frame s x \<Longrightarrow> frame x s' \<Longrightarrow> frame s s'"
  by (simp add: frame_def)

lemma frame_completeOperationInner:
  "frame (s\<lparr>op_state := Completed, op_result := r\<rparr>) (completeOperationInner e r s)"
proof -
  let ?x = "called CancelTimeout (called UnregisterHandler (s\<lparr>op_state := Completed, op_result := r\<rparr>))"
  have "frame (s\<lparr>op_state := Completed, op_result := r\<rparr>) ?x"
    by simp
  moreover have "frame ?x (specializedCompleteOperation e ?x)"
    by (rule frame_specializedCompleteOperation)
  ultimately show ?thesis
    unfolding completeOperationInner_def by (rule frame_trans)
qed

lemma attempt_loop_rule:
  fixes Pre Post :: "ConnectOperationImpl \<Rightarrow> bool" and e :: env
  assumes stable: "\<And>s x. Pre s \<Longrightarrow> frame s x \<Longrightarrow> Pre x"
    and complete: "\<And>r s. Pre s \<Longrightarrow>
          shouldCompleteOperation e r (s\<lparr>attempts_made := attempts_made s + 1\<rparr>) \<Longrightarrow>
          Post (completeOperation e r (s\<lparr>attempts_made := attempts_made s + 1\<rparr>))"
    and retry: "\<And>r s. Pre s \<Longrightarrow>
          \<not> shouldCompleteOperation e r (s\<lparr>attempts_made := attempts_made s + 1\<rparr>) \<Longrightarrow>
          Pre (s\<lparr>attempts_made := attempts_made s + 1\<rparr>)"
    and succeeded: "\<And>s. Pre s \<Longrightarrow> Post (attemptSucceeded e Succeeded s)"
    and posted: "\<And>s. Pre s \<Longrightarrow> conn_variant e = AsyncConn \<Longrightarrow>
          Post (if eventBase_accepts e (trace s) then called PostSpecializedRunImpl s
                else completeOperationInner e Failed s)"
    and waiting: "\<And>s x. Pre s \<Longrightarrow> tryConnect e (trace s) = PENDING \<Longrightarrow> frame s x \<Longrightarrow> Post x"
  shows "e' = e \<Longrightarrow> Pre s \<Longrightarrow> Post (attemptFailed e' result s)"
    and "e' = e \<Longrightarrow> Pre s \<Longrightarrow> Post (specializedRun e' s)"
    and "e' = e \<Longrightarrow> Pre s \<Longrightarrow> Post (specializedRunImpl e' s)"
    and "e' = e \<Longrightarrow> Pre s \<Longrightarrow> Post (actionable e' s)"
proof (induction e' result s and e' s and e' s and e' s
    rule: attemptFailed_specializedRun_specializedRunImpl_actionable.induct)
  case (1 e' result s)
  let ?s1 = "s\<lparr>attempts_made := attempts_made s + 1\<rparr>"
  show ?case
  proof (cases "shouldCompleteOperation e' result ?s1")
    case True
    with 1(2,3) complete [of s result] show ?thesis
      by (simp add: attemptFailed_complete)
  next
    case False
    with 1(2,3) have "Pre ?s1"
      using retry [of s result] by simp
    then have "Pre (retried e' result ?s1)"
      using frame_retried by (rule stable)
    then have "Post (specializedRun e' (retried e' result ?s1))"
      using "1.IH" [OF refl False refl refl refl refl 1(2)] by (simp add: Let_def)
    with False show ?thesis
      by (simp add: attemptFailed_retry)
  qed
next
  case (2 e' s)
  show ?case
  proof (cases "conn_variant e'")
    case SyncConn
    with "2.IH" [OF SyncConn refl 2(2,3)] show ?thesis
      by (simp add: specializedRun_sync)
  next
    case AsyncConn
    with 2(2,3) posted [of s] show ?thesis
      by (simp add: specializedRun_async)
  qed
next
  case (3 e' s)
  have "Pre (specializedRunImpl_setup e' s)"
    using 3(3) frame_specializedRunImpl_setup by (rule stable)
  then have "Post (actionable e' (specializedRunImpl_setup e' s))"
    using "3.IH" 3(2) by simp
  then show ?case
    by (simp add: specializedRunImpl.simps)
next
  case (4 e' s)
  let ?c = "connected e' s"
  consider (err) "tryConnect e' (trace s) = ERROR"
    | (bad) "tryConnect e' (trace s) \<noteq> ERROR" "conn_getSocketDescriptor e' (trace ?c) \<le> 0"
    | (fin) "tryConnect e' (trace s) = DONE" "\<not> conn_getSocketDescriptor e' (trace ?c) \<le> 0"
    | (pending) "tryConnect e' (trace s) = PENDING" "\<not> conn_getSocketDescriptor e' (trace ?c) \<le> 0"
    by (cases "tryConnect e' (trace s)") auto
  then show ?case
  proof cases
    case err
    let ?x = "snapshotMysqlErrors (conn_getErrno e' (trace (called TryConnect s)))
          (conn_getErrorMessage e' (trace (called TryConnect s))) (called TryConnect s)"
    have "frame s ?x"
      by simp
    with 4(4) have "Pre ?x"
      by (rule stable)
    then have "Post (attemptFailed e' Failed ?x)"
      using "4.IH"(1) [OF refl refl refl err 4(3)] by simp
    with err show ?thesis
      by (simp add: actionable_error)
  next
    case bad
    let ?x = "setAsyncClientError (unat (SQ_INITIALIZATION_FAILED e'))
          ''mysql_get_socket_descriptor returned an invalid descriptor'' ?c"
    have "frame s ?x"
      by simp
    with 4(4) have "Pre ?x"
      by (rule stable)
    then have "Post (attemptFailed e' Failed ?x)"
      using "4.IH"(2) [OF refl refl refl bad(1) refl refl bad(2) 4(3)] by simp
    with bad show ?thesis
      by (simp add: actionable_bad_descriptor)
  next
    case fin
    let ?x = "called ConnectionOpened (called ConnSetConnectionContext
          (called (ChangeHandlerFD (conn_getSocketDescriptor e' (trace ?c))) ?c))"
    have "frame s ?x"
      by simp
    with 4(4) have "Pre ?x"
      by (rule stable)
    then have "Post (attemptSucceeded e' Succeeded ?x)"
      using succeeded 4(3) by simp
    with fin show ?thesis
      by (simp add: actionable_done)
  next
    case pending
    have "frame s (called LogThreadBlockTime (called WaitForActionable
       (called (ChangeHandlerFD (conn_getSocketDescriptor e' (trace ?c))) ?c)))"
      by simp
    with 4(3,4) pending(1) waiting
    have "Post (called LogThreadBlockTime (called WaitForActionable
       (called (ChangeHandlerFD (conn_getSocketDescriptor e' (trace ?c))) ?c)))"
      by blast
    with pending show ?thesis
      by (simp add: actionable_pending)
  qed
qed

subsection \<open>Messages and logging\<close>


lemma fields_logConnectCompleted [simp]:
  "conn_options (logConnectCompleted e r x) = conn_options x"
  "attempts_made (logConnectCompleted e r x) = attempts_made x"
  by (simp_all add: logConnectCompleted_def called_def split: option.splits)

lemma prefix_code:
  "prefix (CHR ''['' # code @ '']'') (join sep ((CHR ''['' # code @ CHR '']'' # rest) # parts))"
proof -
  have "prefix (CHR ''['' # code @ '']'') (CHR ''['' # code @ CHR '']'' # rest)"
    by simp
  then show ?thesis
    using join_prefix by (rule prefix_order.trans)
qed

lemma suffix_tag: "suffix tag (join sep (a @ b @ c @ d @ [tag]))"
  using join_suffix [of tag sep "a @ b @ c @ d"] by simp

subsection \<open>The setters\<close>

lemma setter_frame_refl [simp]: "setter_frame s s"
  by (simp add: setter_frame_def)

lemma setter_frame_trans: "setter_frame s x \<Longrightarrow> setter_frame x y \<Longrightarrow> setter_frame s y"
  by (simp add: setter_frame_def)

lemmas setter_defs = setDefaultQueryTimeout_def setSniServerName_def enableResetConnBeforeClose_def
  enableDelayedResetConn_def enableChangeUser_def setCertValidationCallback_def
  setTimeout_def setTcpTimeout_def setTotalTimeout_def setConnectAttempts_def setDscp_def
  setKillOnQueryTimeout_def setSSLOptionsProviderBase_def setSSLOptionsProvider_def
  setAttributes_def setCompression_def

lemma setter_frame_single:
  "setDefaultQueryTimeout t s = Inr s' \<Longrightarrow> setter_frame s s'"
  "setSniServerName n s = Inr s' \<Longrightarrow> setter_frame s s'"
  "enableResetConnBeforeClose s = Inr s' \<Longrightarrow> setter_frame s s'"
  "enableDelayedResetConn s = Inr s' \<Longrightarrow> setter_frame s s'"
  "enableChangeUser s = Inr s' \<Longrightarrow> setter_frame s s'"
  "setCertValidationCallback cb ctx b s = Inr s' \<Longrightarrow> setter_frame s s'"
  "setTimeout t s = Inr s' \<Longrightarrow> setter_frame s s'"
  "setTcpTimeout t s = Inr s' \<Longrightarrow> setter_frame s s'"
  "setTotalTimeout t s = Inr s' \<Longrightarrow> setter_frame s s'"
  "setConnectAttempts a s = Inr s' \<Longrightarrow> setter_frame s s'"
  "setDscp d s = Inr s' \<Longrightarrow> setter_frame s s'"
  "setKillOnQueryTimeout b s = Inr s' \<Longrightarrow> setter_frame s s'"
  "setSSLOptionsProviderBase p s = Inr s' \<Longrightarrow> setter_frame s s'"
  "setSSLOptionsProvider q s = Inr s' \<Longrightarrow> setter_frame s s'"
  "setAttributes attrs s = Inr s' \<Longrightarrow> setter_frame s s'"
  "setCompression lib s = Inr s' \<Longrightarrow> setter_frame s s'"
  by (auto simp: setter_defs setter_frame_def OperationImpl_setTimeout_def Let_def
      split: if_splits)

lemma setter_frame_when_set:
  "when_set v f s = Inr s' \<Longrightarrow> (\<And>x. f x s = Inr s' \<Longrightarrow> setter_frame s s') \<Longrightarrow> setter_frame s s'"
  by (cases v) (auto simp: when_set_def)

lemma setter_result_throwing:
  "(\<And>s'. r = Inr s' \<Longrightarrow> setter_frame s s') \<Longrightarrow> setter_result s (throwing s r)"
  by (cases r) (simp_all add: setter_result_def throwing_def)

lemma setter_result_and_then:
  assumes "setter_result s r" and "\<And>x x'. f x = Inr x' \<Longrightarrow> setter_frame x x'"
  shows "setter_result s (and_then r f)"
proof (cases r)
  case (Inl a)
  with assms(1) show ?thesis
    by (simp add: and_then_def)
next
  case (Inr x)
  with assms(1) have sx: "setter_frame s x"
    by (simp add: setter_result_def)
  show ?thesis
  proof (cases "f x")
    case (Inl a)
    with Inr sx show ?thesis
      by (simp add: and_then_def setter_result_def)
  next
    case r: (Inr x')
    then have "setter_frame x x'"
      by (rule assms(2))
    with sx have "setter_frame s x'"
      by (rule setter_frame_trans)
    with Inr r show ?thesis
      by (simp add: and_then_def setter_result_def)
  qed
qed

lemma setter_result_foldl:
  assumes "\<forall>f \<in> set fs. \<forall>x x'. f x = Inr x' \<longrightarrow> setter_frame x x'"
    and "setter_result s r"
  shows "setter_result s (foldl and_then r fs)"
  using assms
proof (induction fs arbitrary: r)
  case Nil
  then show ?case by simp
next
  case (Cons f fs)
  from Cons.prems(1) have "\<And>x x'. f x = Inr x' \<Longrightarrow> setter_frame x x'"
    by simp
  with Cons.prems(2) have "setter_result s (and_then r f)"
    by (rule setter_result_and_then)
  moreover from Cons.prems(1)
  have "\<forall>f \<in> set fs. \<forall>x x'. f x = Inr x' \<longrightarrow> setter_frame x x'"
    by simp
  ultimately have "setter_result s (foldl and_then (and_then r f) fs)"
    by (intro Cons.IH)
  then show ?case
    by simp
qed

lemma setter_result_setConnectionOptions: "setter_result s (setConnectionOptions conn_opts s)"
  unfolding setConnectionOptions_def
  by (rule setter_result_foldl)
    (auto elim: setter_frame_when_set simp: setter_frame_single setter_result_def)

lemma setter_result_call_setter: "setter_result s (call_setter c s)"
  by (cases c)
    (simp_all add: setter_result_throwing setter_frame_single setter_result_setConnectionOptions)

lemma setter_frame_after_setter: "setter_frame s (after_setter c s)"
  using setter_result_call_setter [of s c]
  by (auto simp: after_setter_def setter_result_def split: sum.splits)

lemma foldl_and_then_thrown: "foldl and_then (Inl x) fs = Inl x"
  by (induction fs) (simp_all add: and_then_def)

subsection \<open>The attempt counter along the life of an operation\<close>





lemma fields_completeOperationInner:
  "op_state (completeOperationInner e r s) = Completed"
  "attempts_made (completeOperationInner e r s) = attempts_made s"
  "conn_options (completeOperationInner e r s) = conn_options s"
  "client_balance (completeOperationInner e r s) = client_balance s"
  "count_list (trace (completeOperationInner e r s)) ActiveConnectionAdded
     = count_list (trace s) ActiveConnectionAdded"
  "count_list (trace (completeOperationInner e r s)) PostSpecializedRunImpl
     = count_list (trace s) PostSpecializedRunImpl"
  using frame_completeOperationInner [where s = s and r = r and e = e]
  by (simp_all add: frame_def client_balance_def)




lemma timeoutHandler_attemptFailed:
  "\<exists>msg. timeoutHandler e isTcp isPool s =
          attemptFailed e TimedOut (setAsyncClientError (CR_SERVER_LOST e) msg s)"
  unfolding timeoutHandler_def Let_def by (rule exI, rule refl)











subsection \<open>Synchronous connections, and the balance with the client\<close>


lemma balanced_frame: "balanced s \<Longrightarrow> frame s x \<Longrightarrow> balanced x"
  by (simp add: balanced_def frame_def)

lemma balanced_cong:
  "trace s' = trace s \<Longrightarrow> active_in_client s' = active_in_client s \<Longrightarrow>
   balanced s' = balanced s"
  by (simp add: balanced_def client_balance_def)

lemma balanced_attempts [simp]: "balanced (s\<lparr>attempts_made := n\<rparr>) = balanced s"
  by (rule balanced_cong) simp_all

lemma balanced_completeOperationInner:
  "balanced s \<Longrightarrow> balanced (completeOperationInner e r s)"
  by (simp add: balanced_def fields_completeOperationInner)

lemma balanced_loop:
  assumes "balanced s"
  shows "balanced (attemptFailed e result s)"
    and "balanced (specializedRun e s)"
    and "balanced (specializedRunImpl e s)"
    and "balanced (actionable e s)"
proof -
  have stable: "\<And>s x. balanced s \<Longrightarrow> frame s x \<Longrightarrow> balanced x"
    by (rule balanced_frame)
  have complete: "\<And>r s. balanced s \<Longrightarrow>
          shouldCompleteOperation e r (s\<lparr>attempts_made := attempts_made s + 1\<rparr>) \<Longrightarrow>
          balanced (completeOperation e r (s\<lparr>attempts_made := attempts_made s + 1\<rparr>))"
    by (simp add: completeOperation_def balanced_completeOperationInner)
  have retry: "\<And>r s. balanced s \<Longrightarrow>
          \<not> shouldCompleteOperation e r (s\<lparr>attempts_made := attempts_made s + 1\<rparr>) \<Longrightarrow>
          balanced (s\<lparr>attempts_made := attempts_made s + 1\<rparr>)"
    by simp
  have succeeded: "\<And>s. balanced s \<Longrightarrow> balanced (attemptSucceeded e Succeeded s)"
    by (simp add: attemptSucceeded_def completeOperation_def balanced_completeOperationInner)
  have posted: "\<And>s. balanced s \<Longrightarrow> conn_variant e = AsyncConn \<Longrightarrow>
          balanced (if eventBase_accepts e (trace s) then called PostSpecializedRunImpl s
                else completeOperationInner e Failed s)"
    by (simp add: balanced_completeOperationInner) (simp add: balanced_def called_def client_balance_def)
  have waiting: "\<And>s x. balanced s \<Longrightarrow> tryConnect e (trace s) = PENDING \<Longrightarrow> frame s x \<Longrightarrow>
          balanced x"
    using balanced_frame by blast
  note facts = stable complete retry succeeded posted waiting refl assms
  show "balanced (attemptFailed e result s)"
    by (rule attempt_loop_rule(1) [where Pre = balanced and Post = balanced and e = e]) (fact facts)+
  show "balanced (specializedRun e s)"
    by (rule attempt_loop_rule(2) [where Pre = balanced and Post = balanced and e = e]) (fact facts)+
  show "balanced (specializedRunImpl e s)"
    by (rule attempt_loop_rule(3) [where Pre = balanced and Post = balanced and e = e]) (fact facts)+
  show "balanced (actionable e s)"
    by (rule attempt_loop_rule(4) [where Pre = balanced and Post = balanced and e = e]) (fact facts)+
qed

lemma balanced_timeoutHandler:
  assumes "balanced s"
  shows "balanced (timeoutHandler e isTcp isPool s)"
proof -
  obtain msg where "timeoutHandler e isTcp isPool s =
      attemptFailed e TimedOut (setAsyncClientError (CR_SERVER_LOST e) msg s)"
    using timeoutHandler_attemptFailed by blast
  moreover have "balanced (setAsyncClientError (CR_SERVER_LOST e) msg s)"
    using assms by (rule balanced_frame) simp
  then have "balanced (attemptFailed e TimedOut (setAsyncClientError (CR_SERVER_LOST e) msg s))"
    by (rule balanced_loop(1))
  ultimately show ?thesis
    by simp
qed

lemma balanced_setter: "balanced s \<Longrightarrow> setter_frame s x \<Longrightarrow> balanced x"
  by (simp add: balanced_def client_balance_def setter_frame_def)

lemma balanced_removeClientReference: "balanced s \<Longrightarrow> balanced (removeClientReference s)"
  by (auto simp: balanced_def removeClientReference_def called_def client_balance_def
      split: if_splits)

lemma balanced_invoke: "balanced s \<Longrightarrow> balanced (invoke e m s)"
proof (cases m)
  case (CallSetter c)
  assume "balanced s"
  then have "balanced (after_setter c s)"
    using setter_frame_after_setter by (rule balanced_setter)
  with CallSetter show ?thesis
    by simp
next
  case CallTcpConnectTimeoutTriggered
  assume "balanced s"
  with CallTcpConnectTimeoutTriggered show ?thesis
    by (simp add: tcpConnectTimeoutTriggered_def balanced_timeoutHandler)
qed (simp_all add: balanced_loop balanced_timeoutHandler specializedTimeoutTriggered_def
    attemptSucceeded_def completeOperation_def balanced_completeOperationInner
    balanced_removeClientReference
    balanced_frame [OF _ frame_specializedCompleteOperation]
    balanced_frame [OF _ frame_logConnectCompleted [OF frame_refl]]
    balanced_frame [OF _ frame_maybeStoreSSLSession [OF frame_refl]])

lemma balanced_fold: "balanced s \<Longrightarrow> balanced (fold (invoke e) calls s)"
  by (induction calls arbitrary: s) (simp_all add: balanced_invoke)

lemma balanced_ctor: "balanced (ConnectOperationImpl_ctor members)"
  by (simp add: balanced_def client_balance_def ConnectOperationImpl_ctor_def)

lemma balanced_dtor:
  "balanced s \<Longrightarrow>
   count_list (trace (ConnectOperationImpl_dtor s)) ActiveConnectionRemoved = 1 \<and>
   count_list (trace (ConnectOperationImpl_dtor s)) ActiveConnectionAdded = 1"
  by (simp add: balanced_def client_balance_def ConnectOperationImpl_dtor_def
      removeClientReference_def called_def split: if_splits)

section \<open>Properties\<close>

text \<open>
  C8. \<open>numQueriesExecuted\<close> throws \<open>OperationStateException\<close> exactly in state \<open>Pending\<close>
  and \<open>resultSize\<close> exactly in state \<open>Unstarted\<close>; in every other state each returns its
  stored counter.
\<close>

theorem fetch_accessors_guarded:
  "numQueriesExecuted f =
     (if fetch_state f = Pending then Inl OperationStateException
      else Inr (num_queries_executed f)) \<and>
   resultSize f =
     (if fetch_state f = Unstarted then Inl OperationStateException
      else Inr (total_result_size f))"
  by (simp add: numQueriesExecuted_def resultSize_def)

theorem fetch_accessors_guarded_witness:
  "numQueriesExecuted \<lparr>fetch_state = Pending, num_queries_executed = 2, total_result_size = 40\<rparr>
     = Inl OperationStateException \<and>
   resultSize \<lparr>fetch_state = Pending, num_queries_executed = 2, total_result_size = 40\<rparr>
     = Inr 40 \<and>
   numQueriesExecuted \<lparr>fetch_state = Unstarted, num_queries_executed = 0, total_result_size = 0\<rparr>
     = Inr 0 \<and>
   resultSize \<lparr>fetch_state = Unstarted, num_queries_executed = 0, total_result_size = 0\<rparr>
     = Inl OperationStateException"
  using fetch_accessors_guarded
    [of "\<lparr>fetch_state = Pending, num_queries_executed = 2, total_result_size = 40\<rparr>"]
    fetch_accessors_guarded
    [of "\<lparr>fetch_state = Unstarted, num_queries_executed = 0, total_result_size = 0\<rparr>"]
  by simp

text \<open>
  C1. What \<open>mysqlCertValidator\<close> returns. When the \<open>ConnectOperation\<close> behind the context has
  no owner left (the weak reference cannot be upgraded) it returns 0, the value \<open>libmysql\<close>
  reads as a valid certificate, and leaves \<open>*errptr\<close> alone. Otherwise it calls the user's
  callback with the operation's address or the stored context, returns 0 when the
  callback returns true and 1 when it returns false, and stores the data pointer of a
  non-empty error message in \<open>*errptr\<close>.
\<close>

theorem mysqlCertValidator_bridge:
  "(use_count self = 0 \<longrightarrow>
      mysqlCertValidator cert (Some self) errptr = Inr (cert_ok, errptr)) \<and>
   (0 < use_count self \<and> self_addr self \<noteq> 0 \<and>
    opt_cert_validation_callback (ref_options self) = Some cb \<and>
    cb cert (if opt_op_ptr_as_validation_context (ref_options self) then self_addr self
             else opt_cert_validation_context (ref_options self)) empty_piece = (ok, msg) \<longrightarrow>
      mysqlCertValidator cert (Some self) errptr =
        Inr (if ok then cert_ok else cert_failed,
             if sp_size msg \<noteq> 0 then sp_data msg else errptr))"
  by (simp add: mysqlCertValidator_def weak_lock_def cert_ok_def cert_failed_def Let_def)

theorem mysqlCertValidator_bridge_witness:
  "mysqlCertValidator 1 (Some (example_ref 0)) 0 = Inr (cert_ok, 0) \<and>
   mysqlCertValidator 2 (Some (example_ref 0)) 0 = Inr (cert_ok, 0) \<and>
   mysqlCertValidator 1 (Some (example_ref 1)) 0 = Inr (cert_ok, 0) \<and>
   mysqlCertValidator 2 (Some (example_ref 1)) 0 = Inr (cert_failed, 600)"
  using mysqlCertValidator_bridge [where self = "example_ref 0" and cert = 1 and errptr = 0]
    mysqlCertValidator_bridge [where self = "example_ref 0" and cert = 2 and errptr = 0]
    mysqlCertValidator_bridge [where self = "example_ref 1" and cb = example_validator
      and cert = 1 and ok = True and msg = empty_piece and errptr = 0]
    mysqlCertValidator_bridge [where self = "example_ref 1" and cb = example_validator
      and cert = 2 and ok = False and msg = "\<lparr>sp_data = 600, sp_size = 11\<rparr>" and errptr = 0]
  by (simp add: example_ref_def example_validator_def example_options_def empty_piece_def)

text \<open>
  C6. On an operation that has left \<open>Unstarted\<close>, the setters that carry a \<open>CHECK_THROW\<close>
  throw \<open>OperationStateException\<close>: \<open>setConnectAttempts\<close>, \<open>setDscp\<close>,
  \<open>setKillOnQueryTimeout\<close>, \<open>setCertValidationCallback\<close>, \<open>setSniServerName\<close>,
  \<open>setDefaultQueryTimeout\<close>, \<open>setSSLOptionsProvider\<close> and the deprecated
  \<open>setSSLOptionsProviderBase\<close>. So does \<open>setConnectionOptions\<close>: its call of
  \<open>setDefaultQueryTimeout\<close> throws, after \<open>setTimeout\<close> has stored the per-attempt timeout.
  But \<open>enableResetConnBeforeClose\<close>, \<open>enableDelayedResetConn\<close>, \<open>enableChangeUser\<close> and
  \<open>setTcpTimeout\<close> have no such check: they store their option and return.
\<close>

theorem setters_after_run:
  assumes "op_state s \<noteq> Unstarted"
  shows "setConnectAttempts n s = Inl OperationStateException \<and>
    setDscp d s = Inl OperationStateException \<and>
    setKillOnQueryTimeout b s = Inl OperationStateException \<and>
    setCertValidationCallback cb ctx asCtx s = Inl OperationStateException \<and>
    setSniServerName name s = Inl OperationStateException \<and>
    setDefaultQueryTimeout t s = Inl OperationStateException \<and>
    setSSLOptionsProvider p s = Inl OperationStateException \<and>
    setSSLOptionsProviderBase q s = Inl OperationStateException \<and>
    (\<exists>s'. setConnectionOptions conn_opts s = Inl (OperationStateException, s') \<and>
          opt_timeout (conn_options s') = opt_timeout conn_opts) \<and>
    enableResetConnBeforeClose s =
      Inr (s\<lparr>conn_options := (conn_options s)\<lparr>opt_reset_conn_before_close := True\<rparr>\<rparr>) \<and>
    enableDelayedResetConn s =
      Inr (s\<lparr>conn_options := (conn_options s)\<lparr>opt_delayed_reset_conn := True\<rparr>\<rparr>) \<and>
    enableChangeUser s =
      Inr (s\<lparr>conn_options := (conn_options s)\<lparr>opt_change_user := True\<rparr>\<rparr>) \<and>
    setTcpTimeout t s =
      Inr (s\<lparr>conn_options := (conn_options s)\<lparr>opt_connect_tcp_timeout := Some t\<rparr>\<rparr>)"
proof -
  have guarded:
    "setConnectAttempts n s = Inl OperationStateException"
    "setDscp d s = Inl OperationStateException"
    "setKillOnQueryTimeout b s = Inl OperationStateException"
    "setCertValidationCallback cb ctx asCtx s = Inl OperationStateException"
    "setSniServerName name s = Inl OperationStateException"
    "setDefaultQueryTimeout t s = Inl OperationStateException"
    "setSSLOptionsProvider p s = Inl OperationStateException"
    "setSSLOptionsProviderBase q s = Inl OperationStateException"
    using assms
    by (simp_all add: setConnectAttempts_def setDscp_def setKillOnQueryTimeout_def
        setCertValidationCallback_def setSniServerName_def setDefaultQueryTimeout_def
        setSSLOptionsProvider_def setSSLOptionsProviderBase_def)
  let ?s1 = "OperationImpl_setTimeout (opt_timeout conn_opts)
      (s\<lparr>conn_options := (conn_options s)\<lparr>opt_timeout := opt_timeout conn_opts\<rparr>\<rparr>)"
  have "op_state ?s1 \<noteq> Unstarted"
    using assms by (simp add: OperationImpl_setTimeout_def)
  then have "setConnectionOptions conn_opts s = Inl (OperationStateException, ?s1)"
    by (simp add: setConnectionOptions_def and_then_def setTimeout_def
        setDefaultQueryTimeout_def foldl_and_then_thrown)
  moreover have "opt_timeout (conn_options ?s1) = opt_timeout conn_opts"
    by (simp add: OperationImpl_setTimeout_def)
  ultimately have all: "\<exists>s'. setConnectionOptions conn_opts s = Inl (OperationStateException, s') \<and>
      opt_timeout (conn_options s') = opt_timeout conn_opts"
    by blast
  have unguarded:
    "enableResetConnBeforeClose s =
      Inr (s\<lparr>conn_options := (conn_options s)\<lparr>opt_reset_conn_before_close := True\<rparr>\<rparr>)"
    "enableDelayedResetConn s =
      Inr (s\<lparr>conn_options := (conn_options s)\<lparr>opt_delayed_reset_conn := True\<rparr>\<rparr>)"
    "enableChangeUser s =
      Inr (s\<lparr>conn_options := (conn_options s)\<lparr>opt_change_user := True\<rparr>\<rparr>)"
    "setTcpTimeout t s =
      Inr (s\<lparr>conn_options := (conn_options s)\<lparr>opt_connect_tcp_timeout := Some t\<rparr>\<rparr>)"
    by (simp_all add: enableResetConnBeforeClose_def enableDelayedResetConn_def
        enableChangeUser_def setTcpTimeout_def)
  from guarded all unguarded show ?thesis
    by (intro conjI)
qed

theorem setters_after_run_witness:
  "op_state started_operation \<noteq> Unstarted \<and>
   setConnectAttempts 5 started_operation = Inl OperationStateException \<and>
   setDscp 8 started_operation = Inl OperationStateException \<and>
   setKillOnQueryTimeout True started_operation = Inl OperationStateException \<and>
   setCertValidationCallback None 0 False started_operation = Inl OperationStateException \<and>
   setSniServerName ''db'' started_operation = Inl OperationStateException \<and>
   setDefaultQueryTimeout 20000 started_operation = Inl OperationStateException \<and>
   setSSLOptionsProvider None started_operation = Inl OperationStateException \<and>
   setSSLOptionsProviderBase 0 started_operation = Inl OperationStateException \<and>
   (\<exists>s'. setConnectionOptions (example_options\<lparr>opt_timeout := 250000\<rparr>) started_operation
           = Inl (OperationStateException, s') \<and>
         opt_timeout (conn_options s') = 250000) \<and>
   enableResetConnBeforeClose started_operation \<noteq> Inl OperationStateException \<and>
   opt_reset_conn_before_close (conn_options (after_setter EnableResetConnBeforeClose started_operation)) \<and>
   enableDelayedResetConn started_operation \<noteq> Inl OperationStateException \<and>
   opt_delayed_reset_conn (conn_options (after_setter EnableDelayedResetConn started_operation)) \<and>
   enableChangeUser started_operation \<noteq> Inl OperationStateException \<and>
   opt_change_user (conn_options (after_setter EnableChangeUser started_operation)) \<and>
   setTcpTimeout 20000 started_operation \<noteq> Inl OperationStateException \<and>
   opt_connect_tcp_timeout (conn_options (after_setter (SetTcpTimeout 20000) started_operation))
     = Some 20000"
  using setters_after_run [where s = started_operation and n = 5 and d = 8 and b = True
      and cb = None and ctx = 0 and asCtx = False and name = "''db''" and t = 20000 and p = None
      and q = 0 and conn_opts = "example_options\<lparr>opt_timeout := 250000\<rparr>"]
  by (simp add: started_operation_def ConnectOperationImpl_ctor_def example_members_def
      example_options_def after_setter_def throwing_def)





text \<open>
  With a per-attempt timeout of \<open>2 ^ 64 - 1\<close> microseconds and 7000 microseconds elapsed,
  the sum wraps around and the retry re-arms the timeout to 6999 microseconds.
\<close>

lemma retry_timeout_wraps:
  "op_timeout (retried ((example_env SyncConn (\<lambda>h. ERROR) 0 False)\<lparr>opElapsed := \<lambda>h. 7000\<rparr>) Failed
     (started_operation\<lparr>conn_options := example_options\<lparr>opt_timeout := - 1\<rparr>,
                         attempts_made := 1\<rparr>)) = 6999"
  by (simp add: eval_defs cong: let_weak_cong)

text \<open>
  C4. The message of a connect timeout starts with the code in brackets:
  \<open>SQ_ERRNO_CONN_TIMEOUT_LOOP_STALLED\<close> when the average callback delay has reached the
  stall threshold, \<open>SQ_ERRNO_CONN_TIMEOUT\<close> otherwise. The errno stored with the message is
  \<open>CR_SERVER_LOST\<close> in both cases, and \<open>attemptFailed TimedOut\<close> runs on the operation that
  carries this pair.
\<close>

theorem timeoutHandler_error_code:
  "\<exists>msg. timeoutHandler e isTcpTimeout isPoolConnection s =
           attemptFailed e TimedOut (s\<lparr>mysql_errno := CR_SERVER_LOST e, mysql_error := msg\<rparr>) \<and>
         prefix (''['' @ format_nat (unat
                   (if kCallbackDelayStallThresholdUs e \<le> callbackDelayMicrosAvg e (trace s)
                    then SQ_ERRNO_CONN_TIMEOUT_LOOP_STALLED e else SQ_ERRNO_CONN_TIMEOUT e))
                 @ '']'') msg"
  unfolding timeoutHandler_def Let_def setAsyncClientError_def
  apply (rule exI, rule conjI, rule refl)
  apply (simp only: append.simps)
  apply (rule prefix_code)
  done

theorem timeoutHandler_error_code_witness:
  "(\<exists>msg. timeoutHandler (example_env SyncConn (\<lambda>h. ERROR) 60000 False) False False started_operation =
           attemptFailed (example_env SyncConn (\<lambda>h. ERROR) 60000 False) TimedOut
             (started_operation\<lparr>mysql_errno := 2013, mysql_error := msg\<rparr>) \<and>
         prefix ''[7001]'' msg) \<and>
   (\<exists>msg. timeoutHandler (example_env SyncConn (\<lambda>h. ERROR) 49999 False) False False started_operation =
           attemptFailed (example_env SyncConn (\<lambda>h. ERROR) 49999 False) TimedOut
             (started_operation\<lparr>mysql_errno := 2013, mysql_error := msg\<rparr>) \<and>
         prefix ''[7000]'' msg)"
  using timeoutHandler_error_code [of "example_env SyncConn (\<lambda>h. ERROR) 60000 False" False False
      started_operation]
    timeoutHandler_error_code [of "example_env SyncConn (\<lambda>h. ERROR) 49999 False" False False
      started_operation]
  by (simp add: example_env_def format_nat.simps)

text \<open>
  A per-attempt timeout of an operation with a single attempt, while the callback delay
  averages 60 ms: the operation completes with \<open>TimedOut\<close> and reports errno 2013
  (\<open>CR_SERVER_LOST\<close>), not 7001.
\<close>

theorem stalled_timeout_errno_counterexample:
  "kCallbackDelayStallThresholdUs (example_env SyncConn (\<lambda>h. ERROR) 60000 False)
     \<le> callbackDelayMicrosAvg (example_env SyncConn (\<lambda>h. ERROR) 60000 False)
         (trace (started_operation\<lparr>conn_options := example_options\<lparr>opt_connect_attempts := 1\<rparr>\<rparr>)) \<and>
   op_state (specializedTimeoutTriggered (example_env SyncConn (\<lambda>h. ERROR) 60000 False)
      (started_operation\<lparr>conn_options := example_options\<lparr>opt_connect_attempts := 1\<rparr>\<rparr>))
     = Completed \<and>
   op_result (specializedTimeoutTriggered (example_env SyncConn (\<lambda>h. ERROR) 60000 False)
      (started_operation\<lparr>conn_options := example_options\<lparr>opt_connect_attempts := 1\<rparr>\<rparr>))
     = TimedOut \<and>
   mysql_errno (specializedTimeoutTriggered (example_env SyncConn (\<lambda>h. ERROR) 60000 False)
      (started_operation\<lparr>conn_options := example_options\<lparr>opt_connect_attempts := 1\<rparr>\<rparr>))
     = 2013 \<and>
   unat (SQ_ERRNO_CONN_TIMEOUT_LOOP_STALLED (example_env SyncConn (\<lambda>h. ERROR) 60000 False)) = 7001 \<and>
   mysql_errno (specializedTimeoutTriggered (example_env SyncConn (\<lambda>h. ERROR) 60000 False)
      (started_operation\<lparr>conn_options := example_options\<lparr>opt_connect_attempts := 1\<rparr>\<rparr>))
     \<noteq> unat (SQ_ERRNO_CONN_TIMEOUT_LOOP_STALLED (example_env SyncConn (\<lambda>h. ERROR) 60000 False))"
  by (simp add: eval_defs cong: let_weak_cong)

text \<open>
  C5. The TCP-handshake timer does nothing when the handshake is done; otherwise it
  stores a message that ends in \<open>(TcpTimeout:1)\<close> and calls \<open>attemptFailed TimedOut\<close>. The
  per-attempt timeout stores a message that ends in \<open>(TcpTimeout:0)\<close> and calls
  \<open>attemptFailed TimedOut\<close> as well.
\<close>

theorem timeouts_route_through_attemptFailed:
  "(conn_isDoneWithTcpHandShake e (trace s) \<longrightarrow> tcpConnectTimeoutTriggered e s = s) \<and>
   (\<not> conn_isDoneWithTcpHandShake e (trace s) \<longrightarrow>
      (\<exists>msg. tcpConnectTimeoutTriggered e s =
                attemptFailed e TimedOut (setAsyncClientError (CR_SERVER_LOST e) msg s) \<and>
              suffix ''(TcpTimeout:1)'' msg)) \<and>
   (\<exists>msg. specializedTimeoutTriggered e s =
             attemptFailed e TimedOut (setAsyncClientError (CR_SERVER_LOST e) msg s) \<and>
           suffix ''(TcpTimeout:0)'' msg)"
proof -
  have tag: "\<exists>msg. timeoutHandler e isTcp isPool s =
             attemptFailed e TimedOut (setAsyncClientError (CR_SERVER_LOST e) msg s) \<and>
           suffix (''(TcpTimeout:'' @ format_nat (if isTcp then 1 else 0) @ '')'') msg"
    for isTcp isPool
    unfolding timeoutHandler_def Let_def
    by (rule exI, rule conjI, rule refl) (rule suffix_tag)
  from tag [of True] tag [of False] show ?thesis
    by (simp add: tcpConnectTimeoutTriggered_def specializedTimeoutTriggered_def
        format_nat_digit)
qed

theorem timeouts_route_through_attemptFailed_witness:
  "conn_isDoneWithTcpHandShake (example_env AsyncConn (\<lambda>h. PENDING) 0 True) (trace started_operation) \<and>
   tcpConnectTimeoutTriggered (example_env AsyncConn (\<lambda>h. PENDING) 0 True) started_operation
     = started_operation \<and>
   \<not> conn_isDoneWithTcpHandShake (example_env AsyncConn (\<lambda>h. PENDING) 0 False) (trace started_operation) \<and>
   (\<exists>msg. tcpConnectTimeoutTriggered (example_env AsyncConn (\<lambda>h. PENDING) 0 False) started_operation =
            attemptFailed (example_env AsyncConn (\<lambda>h. PENDING) 0 False) TimedOut
              (setAsyncClientError 2013 msg started_operation) \<and>
          suffix ''(TcpTimeout:1)'' msg) \<and>
   (\<exists>msg. specializedTimeoutTriggered (example_env AsyncConn (\<lambda>h. PENDING) 0 False) started_operation =
            attemptFailed (example_env AsyncConn (\<lambda>h. PENDING) 0 False) TimedOut
              (setAsyncClientError 2013 msg started_operation) \<and>
          suffix ''(TcpTimeout:0)'' msg)"
  using timeouts_route_through_attemptFailed [of "example_env AsyncConn (\<lambda>h. PENDING) 0 True"
      started_operation]
    timeouts_route_through_attemptFailed [of "example_env AsyncConn (\<lambda>h. PENDING) 0 False"
      started_operation]
  by (simp add: example_env_def)






text \<open>
  C10. Follow an operation from its constructor through any sequence of calls of its
  members to its destructor: \<open>activeConnectionRemoved\<close> has been called exactly once, and
  \<open>activeConnectionAdded\<close> exactly once. A second \<open>removeClientReference\<close> changes nothing.
\<close>

theorem client_reference_removed_once:
  "count_list (trace (ConnectOperationImpl_dtor
       (fold (invoke e) calls (ConnectOperationImpl_ctor members)))) ActiveConnectionRemoved = 1 \<and>
   count_list (trace (ConnectOperationImpl_dtor
       (fold (invoke e) calls (ConnectOperationImpl_ctor members)))) ActiveConnectionAdded = 1 \<and>
   removeClientReference (removeClientReference s) = removeClientReference s"
proof -
  have "balanced (fold (invoke e) calls (ConnectOperationImpl_ctor members))"
    using balanced_ctor by (rule balanced_fold)
  then show ?thesis
    by (simp add: balanced_dtor removeClientReference_def called_def)
qed

theorem client_reference_removed_once_witness:
  "count_list (trace (ConnectOperationImpl_dtor
       (fold (invoke (example_env SyncConn (\<lambda>h. DONE) 0 False))
          [CallSpecializedRunImpl, CallSpecializedCompleteOperation, CallRemoveClientReference]
          (ConnectOperationImpl_ctor example_members)))) ActiveConnectionRemoved = 1 \<and>
   count_list (trace (ConnectOperationImpl_dtor
       (fold (invoke (example_env SyncConn (\<lambda>h. DONE) 0 False)) []
          (ConnectOperationImpl_ctor example_members)))) ActiveConnectionRemoved = 1 \<and>
   trace (ConnectOperationImpl_dtor (ConnectOperationImpl_ctor example_members))
     = [ActiveConnectionAdded, ActiveConnectionRemoved]"
  using client_reference_removed_once [of "example_env SyncConn (\<lambda>h. DONE) 0 False"
      "[CallSpecializedRunImpl, CallSpecializedCompleteOperation, CallRemoveClientReference]"
      example_members started_operation]
    client_reference_removed_once [of "example_env SyncConn (\<lambda>h. DONE) 0 False" "[]"
      example_members started_operation]
  by (simp add: ConnectOperationImpl_dtor_def ConnectOperationImpl_ctor_def
      removeClientReference_def called_def)

end
